theory Spec2Isabelle
  imports Complex_Main "HOL-Library.Word"
begin

section \<open>Values\<close>

text \<open>
  The server (\<^verbatim>\<open>src/server.js\<close>) keeps its posts in one JSON file and speaks JSON
  over HTTP.  A JSON value is what \<^verbatim>\<open>JSON.parse\<close> returns.  Numbers are the
  integers: every number the server itself writes is a \<^verbatim>\<open>Date.now()\<close>.  An object
  is a finite map from property names to values; the order of the properties is only
  visible in the text of the file and is not modelled.
\<close>

datatype json =
    JNull
  | JBool bool
  | JNum int
  | JStr string
  | JArr "json list"
  | JObj "string \<Rightarrow> json option"

text \<open>A JavaScript value read from a property or a request: \<open>None\<close> is \<^verbatim>\<open>undefined\<close>.\<close>

type_synonym jsval = "json option"

text \<open>An object as \<^verbatim>\<open>JSON.parse\<close> builds it, and an object in memory, whose
  properties may hold \<^verbatim>\<open>undefined\<close>.\<close>

type_synonym jobject = "string \<Rightarrow> json option"
type_synonym jsobj = "string \<Rightarrow> jsval option"

text \<open>The result of \<^verbatim>\<open>ToNumber\<close>: a double is a rational, an infinity or NaN.\<close>

datatype jsnum = NaN | NegInf | Fin rat | PosInf

text \<open>\<^verbatim>\<open>obj.k\<close>: a missing property reads as \<^verbatim>\<open>undefined\<close>.\<close>

definition get_prop :: "jsobj \<Rightarrow> string \<Rightarrow> jsval" where
  "get_prop ob k = (case ob k of None \<Rightarrow> None | Some v \<Rightarrow> v)"

text \<open>\<^verbatim>\<open>JSON.stringify\<close> of an object leaves out the properties that hold
  \<^verbatim>\<open>undefined\<close>; \<^verbatim>\<open>JSON.parse\<close> gives every property a value.\<close>

definition JSON_stringify :: "jsobj \<Rightarrow> jobject" where
  "JSON_stringify ob = (\<lambda>k. get_prop ob k)"

definition JSON_parse :: "jobject \<Rightarrow> jsobj" where
  "JSON_parse j = (\<lambda>k. map_option Some (j k))"

text \<open>\<^verbatim>\<open>!v\<close>: the falsy values among those a JSON body can hold.\<close>

fun falsy :: "jsval \<Rightarrow> bool" where
  "falsy None = True"
| "falsy (Some JNull) = True"
| "falsy (Some (JBool b)) = (\<not> b)"
| "falsy (Some (JNum n)) = (n = 0)"
| "falsy (Some (JStr s)) = (s = [])"
| "falsy (Some (JArr xs)) = False"
| "falsy (Some (JObj m)) = False"

subsection \<open>Strings\<close>

text \<open>\<^verbatim>\<open>Number::toString\<close> of an integer (below \<open>10^21\<close> in absolute value, where
  JavaScript prints all the digits).\<close>

definition digit_char :: "nat \<Rightarrow> char" where
  "digit_char d = char_of (48 + d)"

fun dec_digits :: "nat \<Rightarrow> string" where
  "dec_digits n = (if n < 10 then [digit_char n] else dec_digits (n div 10) @ [digit_char (n mod 10)])"

definition NumberToString :: "int \<Rightarrow> string" where
  "NumberToString n = (if n < 0 then CHR ''-'' # dec_digits (nat (- n)) else dec_digits (nat n))"

text \<open>\<^verbatim>\<open>s.replace(pat, rep)\<close> with a string pattern: the first occurrence only.\<close>

fun replace_first :: "string \<Rightarrow> string \<Rightarrow> string \<Rightarrow> string" where
  "replace_first pat rep [] = (if pat = [] then rep else [])"
| "replace_first pat rep (c # cs) =
     (if take (length pat) (c # cs) = pat then rep @ drop (length pat) (c # cs)
      else c # replace_first pat rep cs)"

text \<open>\<^verbatim>\<open>s.slice(start)\<close> for a start that is not negative.\<close>

definition slice :: "nat \<Rightarrow> string \<Rightarrow> string" where
  "slice start s = drop start s"

fun join_comma :: "string list \<Rightarrow> string" where
  "join_comma [] = []"
| "join_comma [x] = x"
| "join_comma (x # y # ys) = x @ CHR '','' # join_comma (y # ys)"

text \<open>\<^verbatim>\<open>ToString\<close> of a parsed value; an array joins its elements with commas, writing
  nothing for \<^verbatim>\<open>null\<close>, and a plain object is \<^verbatim>\<open>[object Object]\<close>.\<close>

fun ToString :: "json \<Rightarrow> string" where
  "ToString JNull = ''null''"
| "ToString (JBool b) = (if b then ''true'' else ''false'')"
| "ToString (JNum n) = NumberToString n"
| "ToString (JStr s) = s"
| "ToString (JArr xs) = join_comma (map (\<lambda>x. if x = JNull then [] else ToString x) xs)"
| "ToString (JObj m) = ''[object Object]''"


section \<open>The platform\<close>

type_synonym bytes = "8 word list"

text \<open>A file part of a multipart request, which is also the file object that \<^verbatim>\<open>multer\<close>
  hands to the storage and to the handler: the name of the form field, the name of the
  file, the bytes.\<close>

record upload_file =
  fieldname :: string
  originalname :: string
  content :: bytes

text \<open>
  How a \<^verbatim>\<open>multer\<close> middleware leaves a request: it calls \<^verbatim>\<open>next()\<close>, with \<^verbatim>\<open>req.file\<close>
  set to the file it accepted and stored or left \<^verbatim>\<open>undefined\<close>, or it removes what it
  stored and calls \<^verbatim>\<open>next(err)\<close>.
\<close>

datatype multer_result = Next "upload_file option" | NextError

text \<open>
  What the server takes from the language and its libraries, and not from its own
  source: the conversion of a string to a number (\<^verbatim>\<open>StringToNumber\<close> of the language);
  \<^verbatim>\<open>x.toString(16)\<close> on a number, whose digits the language leaves to the
  implementation; \<^verbatim>\<open>jwt.sign\<close> and \<^verbatim>\<open>jwt.verify\<close> of the \<^verbatim>\<open>jsonwebtoken\<close> library
  (payload, key, \<^verbatim>\<open>expiresIn\<close> and the clock in milliseconds; token, key and the clock);
  \<^verbatim>\<open>path.extname\<close>; and what \<^verbatim>\<open>multer\<close> decides on the file parts of a request, given
  the field name of \<^verbatim>\<open>upload.single\<close> and the \<^verbatim>\<open>fileSize\<close> of the limits.
\<close>

record platform =
  StringToNumber :: "string \<Rightarrow> jsnum"
  toString16 :: "rat \<Rightarrow> string"
  jwt_sign :: "jobject \<Rightarrow> string \<Rightarrow> string \<Rightarrow> int \<Rightarrow> string"
  jwt_verify :: "string \<Rightarrow> string \<Rightarrow> int \<Rightarrow> bool"
  path_extname :: "string \<Rightarrow> string"
  multer_single :: "string \<Rightarrow> nat \<Rightarrow> upload_file list \<Rightarrow> multer_result"

text \<open>What a request reads from its surroundings: \<^verbatim>\<open>Date.now()\<close>,
  \<^verbatim>\<open>new Date().toISOString()\<close> and \<^verbatim>\<open>Math.random()\<close>, a double, which is a rational.\<close>

record env =
  now :: int
  iso :: string
  random :: rat

text \<open>
  What the server needs of \<^verbatim>\<open>toString(16)\<close>: a number that is at least 0 and below 1
  is written as \<^verbatim>\<open>0\<close>, or as \<^verbatim>\<open>0.\<close> followed by hexadecimal digits.
\<close>

definition is_hex_digit :: "char \<Rightarrow> bool" where
  "is_hex_digit c \<longleftrightarrow> c \<in> set ''0123456789abcdef''"

definition radix16_contract :: "platform \<Rightarrow> bool" where
  "radix16_contract P \<longleftrightarrow>
     (\<forall>x. 0 \<le> x \<and> x < 1 \<longrightarrow>
        toString16 P x = ''0'' \<or>
        (\<exists>ds. toString16 P x = ''0.'' @ ds \<and> list_all is_hex_digit ds))"

text \<open>
  What the server needs of \<^verbatim>\<open>jsonwebtoken\<close>: a token signed with \<^verbatim>\<open>expiresIn: "24h"\<close>
  at the instant \<open>t\<close> (its \<^verbatim>\<open>exp\<close> is \<open>t div 1000 + 86400\<close> seconds) verifies under
  the same key while the clock, in seconds, is below \<^verbatim>\<open>exp\<close>; and a string that verifies
  is a compact serialisation: not empty, and without a space.
\<close>

definition jwt_contract :: "platform \<Rightarrow> bool" where
  "jwt_contract P \<longleftrightarrow>
     (\<forall>payload key t t'. t' div 1000 < t div 1000 + 86400 \<longrightarrow>
        jwt_verify P (jwt_sign P payload key ''24h'' t) key t') \<and>
     (\<forall>tok key t. jwt_verify P tok key t \<longrightarrow> tok \<noteq> [] \<and> CHR '' '' \<notin> set tok)"

subsection \<open>Conversions and comparisons of the language\<close>

fun ToNumber :: "platform \<Rightarrow> jsval \<Rightarrow> jsnum" where
  "ToNumber P None = NaN"
| "ToNumber P (Some JNull) = Fin 0"
| "ToNumber P (Some (JBool b)) = Fin (if b then 1 else 0)"
| "ToNumber P (Some (JNum n)) = Fin (of_int n)"
| "ToNumber P (Some (JStr s)) = StringToNumber P s"
| "ToNumber P (Some (JArr xs)) = StringToNumber P (ToString (JArr xs))"
| "ToNumber P (Some (JObj m)) = StringToNumber P (ToString (JObj m))"

text \<open>\<^verbatim>\<open>x == y\<close> on two numbers.\<close>

fun num_eq :: "jsnum \<Rightarrow> jsnum \<Rightarrow> bool" where
  "num_eq NaN y = False"
| "num_eq x NaN = False"
| "num_eq x y = (x = y)"

text \<open>\<^verbatim>\<open>x == s\<close> for a string \<open>s\<close> (\<^verbatim>\<open>IsLooselyEqual\<close>): a number or a boolean is
  compared with the number of \<open>s\<close>, a string with \<open>s\<close> itself, an array or an object
  through its \<^verbatim>\<open>ToString\<close>; \<^verbatim>\<open>undefined\<close> and \<^verbatim>\<open>null\<close> equal no string.\<close>

fun loose_eq :: "platform \<Rightarrow> jsval \<Rightarrow> string \<Rightarrow> bool" where
  "loose_eq P None s = False"
| "loose_eq P (Some JNull) s = False"
| "loose_eq P (Some (JBool b)) s = num_eq (ToNumber P (Some (JBool b))) (StringToNumber P s)"
| "loose_eq P (Some (JNum n)) s = num_eq (Fin (of_int n)) (StringToNumber P s)"
| "loose_eq P (Some (JStr t)) s = (t = s)"
| "loose_eq P (Some (JArr xs)) s = (ToString (JArr xs) = s)"
| "loose_eq P (Some (JObj m)) s = (ToString (JObj m) = s)"

text \<open>\<^verbatim>\<open>x - y\<close> on numbers.  The difference of two doubles is rounded, and has the sign
  of the exact difference, which is all a comparator's result is read for.\<close>

fun js_sub :: "jsnum \<Rightarrow> jsnum \<Rightarrow> jsnum" where
  "js_sub NaN y = NaN"
| "js_sub x NaN = NaN"
| "js_sub PosInf PosInf = NaN"
| "js_sub NegInf NegInf = NaN"
| "js_sub PosInf y = PosInf"
| "js_sub NegInf y = NegInf"
| "js_sub (Fin a) PosInf = NegInf"
| "js_sub (Fin a) NegInf = PosInf"
| "js_sub (Fin a) (Fin b) = Fin (a - b)"

text \<open>\<^verbatim>\<open>v > 0\<close> and \<^verbatim>\<open>x <= y\<close> on numbers; both are false on NaN.\<close>

fun js_pos :: "jsnum \<Rightarrow> bool" where
  "js_pos PosInf = True"
| "js_pos (Fin a) = (0 < a)"
| "js_pos v = False"

fun js_le :: "jsnum \<Rightarrow> jsnum \<Rightarrow> bool" where
  "js_le NaN y = False"
| "js_le x NaN = False"
| "js_le NegInf y = True"
| "js_le x PosInf = True"
| "js_le (Fin a) (Fin b) = (a \<le> b)"
| "js_le x y = False"

subsection \<open>Arrays\<close>

text \<open>\<^verbatim>\<open>xs.findIndex(f)\<close>, with \<open>None\<close> for \<open>-1\<close>, and \<^verbatim>\<open>xs.find(f)\<close>, with \<open>None\<close>
  for \<^verbatim>\<open>undefined\<close>.\<close>

fun findIndex :: "('a \<Rightarrow> bool) \<Rightarrow> 'a list \<Rightarrow> nat option" where
  "findIndex f [] = None"
| "findIndex f (x # xs) = (if f x then Some 0 else map_option Suc (findIndex f xs))"

fun find_first :: "('a \<Rightarrow> bool) \<Rightarrow> 'a list \<Rightarrow> 'a option" where
  "find_first f [] = None"
| "find_first f (x # xs) = (if f x then Some x else find_first f xs)"

text \<open>
  \<^verbatim>\<open>xs.sort(cmp)\<close>.  The sort of the language is stable, and for a consistent
  comparator its result is the one stable ordering of \<open>xs\<close>; this is the insertion
  sort that computes it.  \<open>after a b\<close> says that \<^verbatim>\<open>cmp(a, b) > 0\<close>: \<open>a\<close> goes behind
  \<open>b\<close>.  (For a comparator that is not consistent the language leaves the order to the
  implementation.)
\<close>

fun insert_sorted :: "('a \<Rightarrow> 'a \<Rightarrow> bool) \<Rightarrow> 'a \<Rightarrow> 'a list \<Rightarrow> 'a list" where
  "insert_sorted after x [] = [x]"
| "insert_sorted after x (y # ys) =
     (if after x y then y # insert_sorted after x ys else x # y # ys)"

definition sort_stable :: "('a \<Rightarrow> 'a \<Rightarrow> bool) \<Rightarrow> 'a list \<Rightarrow> 'a list" where
  "sort_stable after xs = foldr (insert_sorted after) xs []"

section \<open>The server\<close>

subsection \<open>Configuration and state\<close>

definition ADMIN_PASSWORD :: string where
  "ADMIN_PASSWORD = ''666''"

definition JWT_SECRET :: string where
  "JWT_SECRET = ''blog-secret-key''"

text \<open>The files the server owns: \<^verbatim>\<open>data/posts.json\<close>, parsed, and the directory
  \<^verbatim>\<open>uploads\<close>, from file names to contents.\<close>

record state =
  POST_FILE :: "jobject list"
  UPLOAD_DIR :: "string \<Rightarrow> bytes option"

datatype resp_body = NoBody | Json json | ErrorPage

record response =
  status :: nat
  body :: resp_body

text \<open>\<^verbatim>\<open>res.json(v)\<close>, \<^verbatim>\<open>res.status(n).json(v)\<close> and \<^verbatim>\<open>res.status(n).end()\<close>.\<close>

definition res_json :: "json \<Rightarrow> response" where
  "res_json v = \<lparr>status = 200, body = Json v\<rparr>"

definition res_status_json :: "nat \<Rightarrow> json \<Rightarrow> response" where
  "res_status_json n v = \<lparr>status = n, body = Json v\<rparr>"

definition res_status_end :: "nat \<Rightarrow> response" where
  "res_status_end n = \<lparr>status = n, body = NoBody\<rparr>"

text \<open>The object \<^verbatim>\<open>{ msg: m }\<close>.\<close>

definition msg_obj :: "string \<Rightarrow> json" where
  "msg_obj m = JObj [''msg'' \<mapsto> JStr m]"

text \<open>The messages of the source, as the bytes of their UTF-8 text.\<close>

definition msg_not_logged_in :: string where
  "msg_not_logged_in = [CHR 0xE6, CHR 0x9C, CHR 0xAA, CHR 0xE7, CHR 0x99, CHR 0xBB,
     CHR 0xE5, CHR 0xBD, CHR 0x95]"

definition msg_login_expired :: string where
  "msg_login_expired = [CHR 0xE7, CHR 0x99, CHR 0xBB, CHR 0xE5, CHR 0xBD, CHR 0x95,
     CHR 0xE5, CHR 0xA4, CHR 0xB1, CHR 0xE6, CHR 0x95, CHR 0x88]"

definition msg_wrong_password :: string where
  "msg_wrong_password = [CHR 0xE5, CHR 0xAF, CHR 0x86, CHR 0xE7, CHR 0xA0, CHR 0x81,
     CHR 0xE9, CHR 0x94, CHR 0x99, CHR 0xE8, CHR 0xAF, CHR 0xAF]"

definition msg_missing_title :: string where
  "msg_missing_title = [CHR 0xE7, CHR 0xBC, CHR 0xBA, CHR 0xE5, CHR 0xB0, CHR 0x91,
     CHR 0xE6, CHR 0xA0, CHR 0x87, CHR 0xE9, CHR 0xA2, CHR 0x98]"

definition msg_api_not_found :: string where
  "msg_api_not_found = ''API Not Found''"

subsection \<open>Tool functions\<close>

definition readPosts :: "state \<Rightarrow> jsobj list" where
  "readPosts s = map JSON_parse (POST_FILE s)"

definition savePosts :: "jsobj list \<Rightarrow> state \<Rightarrow> state" where
  "savePosts data s = s\<lparr>POST_FILE := map JSON_stringify data\<rparr>"

text \<open>\<^verbatim>\<open>authMiddleware\<close>: \<open>None\<close> is the call of \<^verbatim>\<open>next()\<close>, \<open>Some r\<close> the response
  that ends the request.  The argument is \<^verbatim>\<open>req.headers.authorization\<close>.\<close>

definition authMiddleware :: "platform \<Rightarrow> env \<Rightarrow> string option \<Rightarrow> response option" where
  "authMiddleware P e authorization =
     (let token = map_option (replace_first ''Bearer '' '''') authorization in
      case token of
        None \<Rightarrow> Some (res_status_json 401 (msg_obj msg_not_logged_in))
      | Some tok \<Rightarrow>
          if tok = [] then Some (res_status_json 401 (msg_obj msg_not_logged_in))
          else if jwt_verify P tok JWT_SECRET (now e) then None
          else Some (res_status_json 401 (msg_obj msg_login_expired)))"

subsection \<open>Login\<close>

text \<open>\<^verbatim>\<open>POST /api/login\<close>; the argument is \<^verbatim>\<open>req.body\<close>.\<close>

definition login :: "platform \<Rightarrow> env \<Rightarrow> jobject \<Rightarrow> response" where
  "login P e req_body =
     (let password = req_body ''password'' in
      if password \<noteq> Some (JStr ADMIN_PASSWORD)
      then res_status_json 401 (msg_obj msg_wrong_password)
      else
        let token = jwt_sign P [''role'' \<mapsto> JStr ''admin''] JWT_SECRET ''24h'' (now e)
        in res_json (JObj [''token'' \<mapsto> JStr token]))"

subsection \<open>Posts\<close>

text \<open>The comparator of the list, \<^verbatim>\<open>(a, b) => b.id - a.id\<close>, read as
  \<^verbatim>\<open>cmp(a, b) > 0\<close>.\<close>

definition id_desc_after :: "platform \<Rightarrow> jsobj \<Rightarrow> jsobj \<Rightarrow> bool" where
  "id_desc_after P a b =
     js_pos (js_sub (ToNumber P (get_prop b ''id'')) (ToNumber P (get_prop a ''id'')))"

text \<open>\<^verbatim>\<open>GET /api/posts\<close>.\<close>

definition list_posts :: "platform \<Rightarrow> state \<Rightarrow> response" where
  "list_posts P s =
     (let posts = sort_stable (id_desc_after P) (readPosts s)
      in res_json (JArr (map (\<lambda>p. JObj (JSON_stringify p)) posts)))"

text \<open>\<^verbatim>\<open>GET /api/posts/:id\<close>; \<open>rid\<close> is \<^verbatim>\<open>req.params.id\<close>.\<close>

definition get_post :: "platform \<Rightarrow> string \<Rightarrow> state \<Rightarrow> response" where
  "get_post P rid s =
     (case find_first (\<lambda>p. loose_eq P (get_prop p ''id'') rid) (readPosts s) of
        None \<Rightarrow> res_status_end 404
      | Some post \<Rightarrow> res_json (JObj (JSON_stringify post)))"

text \<open>\<^verbatim>\<open>POST /api/posts\<close>, behind \<^verbatim>\<open>authMiddleware\<close>.\<close>

definition create_post :: "env \<Rightarrow> jobject \<Rightarrow> state \<Rightarrow> response \<times> state" where
  "create_post e req_body s =
     (let title = req_body ''title''; content = req_body ''content'' in
      if falsy title then (res_status_json 400 (msg_obj msg_missing_title), s)
      else
        let posts = readPosts s;
            post = [''id'' \<mapsto> Some (JNum (now e)),
                    ''title'' \<mapsto> title,
                    ''content'' \<mapsto> content,
                    ''createdAt'' \<mapsto> Some (JStr (iso e))];
            posts = post # posts;
            s = savePosts posts s
        in (res_json (JObj (JSON_stringify post)), s))"

text \<open>\<^verbatim>\<open>PUT /api/posts/:id\<close>, behind \<^verbatim>\<open>authMiddleware\<close>.\<close>

definition update_post :: "platform \<Rightarrow> env \<Rightarrow> string \<Rightarrow> jobject \<Rightarrow> state \<Rightarrow> response \<times> state" where
  "update_post P e rid req_body s =
     (let posts = readPosts s in
      case findIndex (\<lambda>p. loose_eq P (get_prop p ''id'') rid) posts of
        None \<Rightarrow> (res_status_end 404, s)
      | Some index \<Rightarrow>
          let posts = posts[index := (posts ! index)(''title'' \<mapsto> req_body ''title'')];
              posts = posts[index := (posts ! index)(''content'' \<mapsto> req_body ''content'')];
              posts = posts[index := (posts ! index)(''updatedAt'' \<mapsto> Some (JStr (iso e)))];
              s = savePosts posts s
          in (res_json (JObj (JSON_stringify (posts ! index))), s))"

text \<open>\<^verbatim>\<open>DELETE /api/posts/:id\<close>, behind \<^verbatim>\<open>authMiddleware\<close>.\<close>

definition delete_post :: "platform \<Rightarrow> string \<Rightarrow> state \<Rightarrow> response \<times> state" where
  "delete_post P rid s =
     (let posts = filter (\<lambda>p. \<not> loose_eq P (get_prop p ''id'') rid) (readPosts s);
          s = savePosts posts s
      in (res_json (JObj [''ok'' \<mapsto> JBool True]), s))"

subsection \<open>Uploads\<close>

text \<open>The \<^verbatim>\<open>filename\<close> function of the disk storage.\<close>

definition storage_filename :: "platform \<Rightarrow> env \<Rightarrow> upload_file \<Rightarrow> string" where
  "storage_filename P e file =
     (let ext = path_extname P (originalname file);
          name = NumberToString (now e) @ ''-'' @ slice 2 (toString16 P (random e)) @ ext
      in name)"

definition fileSize_limit :: nat where
  "fileSize_limit = 10 * 1024 * 1024"

text \<open>
  \<^verbatim>\<open>POST /api/upload\<close>, behind \<^verbatim>\<open>authMiddleware\<close>: \<^verbatim>\<open>upload.single("file")\<close> and the
  handler.  The argument is the list of the file parts of the request, in their order
  (none when the request is not a multipart request).  A file that \<^verbatim>\<open>multer\<close> accepts is
  written to the upload directory under the name that the storage gives it, and is
  \<^verbatim>\<open>req.file\<close>.  When \<^verbatim>\<open>multer\<close> passes an error on, the handler is not reached and the
  framework answers with status 500 and its error page.
\<close>

definition upload :: "platform \<Rightarrow> env \<Rightarrow> upload_file list \<Rightarrow> state \<Rightarrow> response \<times> state" where
  "upload P e parts s =
     (case multer_single P ''file'' fileSize_limit parts of
        NextError \<Rightarrow> (\<lparr>status = 500, body = ErrorPage\<rparr>, s)
      | Next None \<Rightarrow> (res_status_end 400, s)
      | Next (Some file) \<Rightarrow>
          let filename = storage_filename P e file;
              s = s\<lparr>UPLOAD_DIR := (UPLOAD_DIR s)(filename \<mapsto> content file)\<rparr>
          in (res_json (JObj [''url'' \<mapsto> JStr (''/uploads/'' @ filename),
                              ''filename'' \<mapsto> JStr (originalname file)]), s))"

subsection \<open>Routes\<close>

text \<open>A request of the API, by the route that matches it, with what the route reads:
  the \<^verbatim>\<open>Authorization\<close> header, the parameter \<^verbatim>\<open>:id\<close>, the parsed body, the file
  parts.  (A request whose body the body parsers of the framework refuse does not reach
  a route, and is not a request of this type.)\<close>

datatype request =
    Login jobject
  | ListPosts
  | GetPost string
  | CreatePost "string option" jobject
  | UpdatePost "string option" string jobject
  | DeletePost "string option" string
  | Upload "string option" "upload_file list"
  | Unmatched

text \<open>A route behind \<^verbatim>\<open>authMiddleware\<close>.\<close>

definition protected ::
  "platform \<Rightarrow> env \<Rightarrow> string option \<Rightarrow> (state \<Rightarrow> response \<times> state) \<Rightarrow> state \<Rightarrow> response \<times> state" where
  "protected P e authorization handler s =
     (case authMiddleware P e authorization of
        Some r \<Rightarrow> (r, s)
      | None \<Rightarrow> handler s)"

fun handle :: "platform \<Rightarrow> env \<Rightarrow> request \<Rightarrow> state \<Rightarrow> response \<times> state" where
  "handle P e (Login b) s = (login P e b, s)"
| "handle P e ListPosts s = (list_posts P s, s)"
| "handle P e (GetPost rid) s = (get_post P rid s, s)"
| "handle P e (CreatePost a b) s = protected P e a (create_post e b) s"
| "handle P e (UpdatePost a rid b) s = protected P e a (update_post P e rid b) s"
| "handle P e (DeletePost a rid) s = protected P e a (delete_post P rid) s"
| "handle P e (Upload a parts) s = protected P e a (upload P e parts) s"
| "handle P e Unmatched s = (res_status_json 404 (msg_obj msg_api_not_found), s)"

section \<open>A sample platform\<close>

text \<open>
  An instance of the platform on which the server can be run: strings of decimal digits
  convert to their value (as in the language, for the values a double holds) and every
  other string to NaN; a number below 1 is written in base 16 with the first fourteen
  digits of its expansion, which are all its digits when it is a multiple of \<open>2^-56\<close>;
  a token is nothing but its \<^verbatim>\<open>exp\<close>, in decimal digits, and verifies while the clock is
  below it; the extension of a name starts at its last dot; \<^verbatim>\<open>multer\<close> accepts a request
  without a file part, and one file part under the expected field name that is
  shorter than the limit, and refuses every other file part as unexpected or too large.
\<close>

definition is_digit :: "char \<Rightarrow> bool" where
  "is_digit c \<longleftrightarrow> 48 \<le> (of_char c :: nat) \<and> (of_char c :: nat) \<le> 57"

definition dec_value :: "string \<Rightarrow> nat" where
  "dec_value s = foldl (\<lambda>a c. 10 * a + (of_char c - 48)) 0 s"

definition sample_StringToNumber :: "string \<Rightarrow> jsnum" where
  "sample_StringToNumber s = (if list_all is_digit s then Fin (of_nat (dec_value s)) else NaN)"

definition sample_sign :: "jobject \<Rightarrow> string \<Rightarrow> string \<Rightarrow> int \<Rightarrow> string" where
  "sample_sign payload key expiresIn t = dec_digits (nat (t div 1000 + 86400))"

definition sample_verify :: "string \<Rightarrow> string \<Rightarrow> int \<Rightarrow> bool" where
  "sample_verify tok key t \<longleftrightarrow> tok \<noteq> [] \<and> list_all is_digit tok \<and> t div 1000 < int (dec_value tok)"

definition hex_digit :: "nat \<Rightarrow> char" where
  "hex_digit d = ''0123456789abcdef'' ! d"

fun hex_fraction :: "nat \<Rightarrow> rat \<Rightarrow> string" where
  "hex_fraction 0 x = []"
| "hex_fraction (Suc n) x =
     (if x = 0 then []
      else hex_digit (nat \<lfloor>16 * x\<rfloor>) # hex_fraction n (16 * x - of_int \<lfloor>16 * x\<rfloor>))"

definition sample_toString16 :: "rat \<Rightarrow> string" where
  "sample_toString16 x = (if x = 0 then ''0'' else ''0.'' @ hex_fraction 14 x)"

definition sample_multer_single :: "string \<Rightarrow> nat \<Rightarrow> upload_file list \<Rightarrow> multer_result" where
  "sample_multer_single field limit parts =
     (case parts of
        [] \<Rightarrow> Next None
      | [file] \<Rightarrow>
          if fieldname file = field \<and> length (content file) < limit then Next (Some file)
          else NextError
      | file # others \<Rightarrow> NextError)"

definition sample_extname :: "string \<Rightarrow> string" where
  "sample_extname s =
     (if CHR ''.'' \<in> set s then CHR ''.'' # rev (takeWhile (\<lambda>c. c \<noteq> CHR ''.'') (rev s)) else [])"

definition sample_platform :: platform where
  "sample_platform =
     \<lparr>StringToNumber = sample_StringToNumber,
      toString16 = sample_toString16,
      jwt_sign = sample_sign,
      jwt_verify = sample_verify,
      path_extname = sample_extname,
      multer_single = sample_multer_single\<rparr>"

text \<open>A moment, at which \<^verbatim>\<open>Math.random()\<close> is the number written \<^verbatim>\<open>0.8f3a1c\<close> in base
  16, and a store of two posts, to run the server on.\<close>

definition sample_env :: env where
  "sample_env =
     \<lparr>now = 1700000000000, iso = ''2023-11-14T22:13:20.000Z'', random = 9386524 / 16777216\<rparr>"

definition post_a :: jobject where
  "post_a = [''id'' \<mapsto> JNum 5, ''title'' \<mapsto> JStr ''A'', ''content'' \<mapsto> JStr ''first'',
             ''createdAt'' \<mapsto> JStr ''1970-01-01T00:00:00.005Z'']"

definition post_b :: jobject where
  "post_b = [''id'' \<mapsto> JNum 7, ''title'' \<mapsto> JStr ''B'', ''content'' \<mapsto> JStr ''second'',
             ''createdAt'' \<mapsto> JStr ''1970-01-01T00:00:00.007Z'']"

definition sample_state :: state where
  "sample_state = \<lparr>POST_FILE = [post_b, post_a], UPLOAD_DIR = Map.empty\<rparr>"

section \<open>Lemmas\<close>

subsection \<open>JSON objects\<close>

text \<open>What \<^verbatim>\<open>JSON.parse\<close> reads back is what \<^verbatim>\<open>JSON.stringify\<close> wrote, and the searches of the
  handlers see the stored ids.\<close>

lemma JSON_stringify_parse: "JSON_stringify (JSON_parse j) = j"
  by (rule ext) (simp add: JSON_stringify_def JSON_parse_def get_prop_def split: option.splits)

lemma get_prop_parse: "get_prop (JSON_parse j) k = j k"
  by (simp add: JSON_parse_def get_prop_def split: option.splits)

lemma stringify_created:
  "JSON_stringify [''id'' \<mapsto> Some (JNum n), ''title'' \<mapsto> t, ''content'' \<mapsto> c,
      ''createdAt'' \<mapsto> Some (JStr d)] =
   [''id'' \<mapsto> JNum n, ''createdAt'' \<mapsto> JStr d](''title'' := t, ''content'' := c)"
  by (rule ext) (simp add: JSON_stringify_def get_prop_def)

lemma stringify_updated:
  "JSON_stringify ((JSON_parse p)(''title'' \<mapsto> t, ''content'' \<mapsto> c, ''updatedAt'' \<mapsto> Some u)) =
   p(''title'' := t, ''content'' := c, ''updatedAt'' \<mapsto> u)"
  by (rule ext) (simp add: JSON_stringify_def JSON_parse_def get_prop_def split: option.splits)

lemma filter_parse:
  "map JSON_stringify (filter (\<lambda>p. f (get_prop p ''id'')) (map JSON_parse xs)) =
   filter (\<lambda>p. f (p ''id'')) xs"
  by (induction xs) (simp_all add: get_prop_parse JSON_stringify_parse)

lemma findIndex_parse:
  "findIndex (\<lambda>p. f (get_prop p ''id'')) (map JSON_parse xs) = findIndex (\<lambda>p. f (p ''id'')) xs"
  by (induction xs) (simp_all add: get_prop_parse)

lemma find_first_parse:
  "find_first (\<lambda>p. f (get_prop p ''id'')) (map JSON_parse xs) =
   map_option JSON_parse (find_first (\<lambda>p. f (p ''id'')) xs)"
  by (induction xs) (simp_all add: get_prop_parse)

subsection \<open>Searching and sorting\<close>

lemma findIndex_None: "findIndex f xs = None \<longleftrightarrow> (\<forall>x\<in>set xs. \<not> f x)"
  by (induction xs) auto

lemma findIndex_Some:
  "findIndex f xs = Some i \<Longrightarrow> i < length xs \<and> f (xs ! i) \<and> (\<forall>j<i. \<not> f (xs ! j))"
proof (induction xs arbitrary: i)
  case Nil
  then show ?case by simp
next
  case (Cons x xs)
  show ?case
  proof (cases "f x")
    case True
    with Cons.prems show ?thesis by simp
  next
    case False
    with Cons.prems obtain k where k: "findIndex f xs = Some k" "i = Suc k"
      by auto
    from Cons.IH [OF k(1)] False k(2) show ?thesis
      by (auto simp: less_Suc_eq_0_disj)
  qed
qed

lemma findIndex_first:
  "i < length xs \<Longrightarrow> f (xs ! i) \<Longrightarrow> \<forall>j<i. \<not> f (xs ! j) \<Longrightarrow> findIndex f xs = Some i"
proof (induction xs arbitrary: i)
  case Nil
  then show ?case by simp
next
  case (Cons x xs)
  show ?case
  proof (cases i)
    case 0
    with Cons.prems show ?thesis by simp
  next
    case (Suc k)
    with Cons.prems have "\<not> f x" by auto
    moreover have "findIndex f xs = Some k"
    proof (rule Cons.IH)
      show "k < length xs" using Cons.prems(1) Suc by simp
      show "f (xs ! k)" using Cons.prems(2) Suc by simp
      show "\<forall>j<k. \<not> f (xs ! j)"
      proof (intro allI impI)
        fix j assume "j < k"
        then have "Suc j < i" using Suc by simp
        with Cons.prems(3) have "\<not> f ((x # xs) ! Suc j)" by blast
        then show "\<not> f (xs ! j)" by simp
      qed
    qed
    ultimately show ?thesis using Suc by simp
  qed
qed

lemma findIndex_update:
  "findIndex f xs = Some i \<Longrightarrow> f q \<Longrightarrow> findIndex f (xs[i := q]) = Some i"
proof (induction xs arbitrary: i)
  case Nil
  then show ?case by simp
next
  case (Cons x xs)
  then show ?case by (cases "f x") auto
qed

lemma find_first_findIndex:
  "findIndex f xs = Some i \<Longrightarrow> find_first f xs = Some (xs ! i)"
proof (induction xs arbitrary: i)
  case Nil
  then show ?case by simp
next
  case (Cons x xs)
  then show ?case by (cases "f x") auto
qed

lemma insert_sorted_first:
  "\<forall>y\<in>set ys. \<not> after x y \<Longrightarrow> insert_sorted after x ys = x # ys"
  by (cases ys) simp_all

lemma set_insert_sorted: "set (insert_sorted after x ys) = insert x (set ys)"
  by (induction ys) auto

lemma set_sort_stable: "set (sort_stable after xs) = set xs"
  by (induction xs) (simp_all add: sort_stable_def set_insert_sorted)

lemma sort_stable_Cons:
  "\<forall>y\<in>set xs. \<not> after x y \<Longrightarrow> sort_stable after (x # xs) = x # sort_stable after xs"
  using insert_sorted_first [of "sort_stable after xs" after x]
  by (simp add: sort_stable_def set_sort_stable [unfolded sort_stable_def])

lemma js_le_not_pos: "js_le x (Fin n) \<Longrightarrow> \<not> js_pos (js_sub x (Fin n))"
  by (cases x) simp_all

subsection \<open>Replacing the first occurrence\<close>

lemma replace_first_hit: "replace_first pat rep (pat @ b) = rep @ b"
proof (cases "pat @ b")
  case Nil
  then show ?thesis by simp
next
  case (Cons c cs)
  have "take (length pat) (pat @ b) = pat" and "drop (length pat) (pat @ b) = b"
    by simp_all
  then have "take (length pat) (c # cs) = pat" and "drop (length pat) (c # cs) = b"
    by (simp_all only: Cons)
  then have "replace_first pat rep (c # cs) = rep @ b"
    by (simp del: take_Suc_Cons drop_Suc_Cons)
  then show ?thesis by (simp only: Cons)
qed

lemma replace_first_miss:
  "take (length pat) (c # cs) \<noteq> pat \<Longrightarrow>
   replace_first pat rep (c # cs) = c # replace_first pat rep cs"
  by (simp only: replace_first.simps if_False)

lemma replace_first_occ:
  "(\<forall>a' b'. a @ pat @ b = a' @ pat @ b' \<longrightarrow> length a \<le> length a') \<Longrightarrow>
   replace_first pat rep (a @ pat @ b) = a @ rep @ b"
proof (induction a)
  case Nil
  then show ?case by (simp only: append_Nil replace_first_hit)
next
  case (Cons c a)
  have ne: "take (length pat) (c # a @ pat @ b) \<noteq> pat"
  proof
    assume "take (length pat) (c # a @ pat @ b) = pat"
    then have "(c # a) @ pat @ b = [] @ pat @ drop (length pat) (c # a @ pat @ b)"
      by (metis append_Cons append_Nil append_take_drop_id)
    with Cons.prems have "length (c # a) \<le> length ([]::string)" by blast
    then show False by simp
  qed
  have "\<forall>a' b'. a @ pat @ b = a' @ pat @ b' \<longrightarrow> length a \<le> length a'"
  proof (intro allI impI)
    fix a' b' assume "a @ pat @ b = a' @ pat @ b'"
    then have "(c # a) @ pat @ b = (c # a') @ pat @ b'" by simp
    with Cons.prems have "length (c # a) \<le> length (c # a')" by blast
    then show "length a \<le> length a'" by simp
  qed
  from Cons.IH [OF this] replace_first_miss [OF ne] show ?case by simp
qed

lemma replace_first_none:
  "(\<forall>a b. s \<noteq> a @ pat @ b) \<Longrightarrow> pat \<noteq> [] \<Longrightarrow> replace_first pat rep s = s"
proof (induction s)
  case Nil then show ?case by simp
next
  case (Cons c cs)
  have ne: "take (length pat) (c # cs) \<noteq> pat"
  proof
    assume "take (length pat) (c # cs) = pat"
    then have "c # cs = [] @ pat @ drop (length pat) (c # cs)"
      by (metis append_Nil append_take_drop_id)
    with Cons.prems show False by blast
  qed
  have "\<forall>a b. cs \<noteq> a @ pat @ b"
  proof (intro allI notI)
    fix a b assume "cs = a @ pat @ b"
    then have "c # cs = (c # a) @ pat @ b" by simp
    with Cons.prems show False by blast
  qed
  from Cons.IH [OF this Cons.prems(2)] replace_first_miss [OF ne] show ?case by simp
qed

lemma replace_first_no_space:
  assumes "CHR '' '' \<notin> set s"
  shows "replace_first ''Bearer '' [] s = s"
proof (rule replace_first_none)
  show "\<forall>a b. s \<noteq> a @ ''Bearer '' @ b"
  proof (intro allI notI)
    fix a b assume "s = a @ ''Bearer '' @ b"
    then have "CHR '' '' \<in> set s" by simp
    with assms show False by simp
  qed
  show "''Bearer '' \<noteq> []" by simp
qed

lemma replace_first_lower:
  "replace_first ''Bearer '' [] (''bearer '' @ s) = ''bearer '' @ replace_first ''Bearer '' [] s"
  by simp

subsection \<open>The handlers\<close>

lemma create_post_invalid:
  "falsy (req_body ''title'') \<Longrightarrow>
   create_post e req_body s = (res_status_json 400 (msg_obj msg_missing_title), s)"
  by (simp add: create_post_def)

lemma create_post_valid:
  assumes "\<not> falsy (req_body ''title'')"
  shows "create_post e req_body s =
     (res_json (JObj ([''id'' \<mapsto> JNum (now e), ''createdAt'' \<mapsto> JStr (iso e)]
          (''title'' := req_body ''title'', ''content'' := req_body ''content''))),
      s\<lparr>POST_FILE := [''id'' \<mapsto> JNum (now e), ''createdAt'' \<mapsto> JStr (iso e)]
          (''title'' := req_body ''title'', ''content'' := req_body ''content'') # POST_FILE s\<rparr>)"
  using assms
  by (simp add: create_post_def Let_def savePosts_def readPosts_def stringify_created
      comp_def JSON_stringify_parse)

lemma list_posts_Cons:
  assumes "\<forall>p\<in>set (POST_FILE s). \<not> id_desc_after P (JSON_parse q) (JSON_parse p)"
  shows "list_posts P (s\<lparr>POST_FILE := q # POST_FILE s\<rparr>) =
     res_json (JArr (JObj q #
       map (\<lambda>p. JObj (JSON_stringify p)) (sort_stable (id_desc_after P) (readPosts s))))"
proof -
  have "\<forall>y\<in>set (readPosts s). \<not> id_desc_after P (JSON_parse q) y"
    using assms by (simp add: readPosts_def)
  with sort_stable_Cons [of "readPosts s" "id_desc_after P" "JSON_parse q"]
  have "sort_stable (id_desc_after P) (JSON_parse q # readPosts s) =
      JSON_parse q # sort_stable (id_desc_after P) (readPosts s)"
    by simp
  then show ?thesis
    by (simp add: list_posts_def readPosts_def JSON_stringify_parse)
qed

lemma get_post_found:
  assumes "findIndex (\<lambda>p. loose_eq P (p ''id'') rid) (POST_FILE s) = Some i"
  shows "get_post P rid s = res_json (JObj (POST_FILE s ! i))"
proof -
  have "find_first (\<lambda>p. loose_eq P (get_prop p ''id'') rid) (readPosts s) =
      Some (JSON_parse (POST_FILE s ! i))"
    using find_first_findIndex [OF assms]
    by (simp add: readPosts_def find_first_parse [of "\<lambda>v. loose_eq P v rid"])
  then show ?thesis by (simp add: get_post_def JSON_stringify_parse)
qed

lemma update_post_missing:
  "\<forall>p\<in>set (POST_FILE s). \<not> loose_eq P (p ''id'') rid \<Longrightarrow>
   update_post P e rid req_body s = (res_status_end 404, s)"
proof -
  assume a: "\<forall>p\<in>set (POST_FILE s). \<not> loose_eq P (p ''id'') rid"
  have "findIndex (\<lambda>p. loose_eq P (get_prop p ''id'') rid) (readPosts s) = None"
    using a by (simp add: findIndex_None readPosts_def get_prop_parse)
  then show ?thesis by (simp add: update_post_def)
qed

lemma update_post_found:
  assumes "findIndex (\<lambda>p. loose_eq P (p ''id'') rid) (POST_FILE s) = Some i"
  shows "update_post P e rid req_body s =
     (res_json (JObj ((POST_FILE s ! i)(''title'' := req_body ''title'',
          ''content'' := req_body ''content'', ''updatedAt'' \<mapsto> JStr (iso e)))),
      s\<lparr>POST_FILE := (POST_FILE s)[i := (POST_FILE s ! i)(''title'' := req_body ''title'',
          ''content'' := req_body ''content'', ''updatedAt'' \<mapsto> JStr (iso e))]\<rparr>)"
proof -
  from findIndex_Some [OF assms] have i: "i < length (POST_FILE s)" by simp
  have fi: "findIndex (\<lambda>p. loose_eq P (get_prop p ''id'') rid) (readPosts s) = Some i"
    using assms by (simp add: readPosts_def findIndex_parse [of "\<lambda>v. loose_eq P v rid"])
  have len: "i < length (readPosts s)" using i by (simp add: readPosts_def)
  have nth: "readPosts s ! i = JSON_parse (POST_FILE s ! i)"
    using i by (simp add: readPosts_def)
  let ?q = "(JSON_parse (POST_FILE s ! i))(''title'' \<mapsto> req_body ''title'',
      ''content'' \<mapsto> req_body ''content'', ''updatedAt'' \<mapsto> Some (JStr (iso e)))"
  have upd: "update_post P e rid req_body s =
      (res_json (JObj (JSON_stringify ?q)), savePosts ((readPosts s)[i := ?q]) s)"
    using fi len nth by (simp add: update_post_def Let_def)
  have "map JSON_stringify ((readPosts s)[i := ?q]) =
      (POST_FILE s)[i := JSON_stringify ?q]"
    by (simp add: readPosts_def map_update comp_def JSON_stringify_parse)
  then show ?thesis
    unfolding upd by (simp add: savePosts_def stringify_updated)
qed

lemma delete_post_eq:
  "delete_post P rid s =
     (res_json (JObj [''ok'' \<mapsto> JBool True]),
      s\<lparr>POST_FILE := filter (\<lambda>p. \<not> loose_eq P (p ''id'') rid) (POST_FILE s)\<rparr>)"
  by (simp add: delete_post_def savePosts_def readPosts_def
      filter_parse [of "\<lambda>v. \<not> loose_eq P v rid"])

lemma contract_token:
  "jwt_contract P \<Longrightarrow> jwt_verify P tok key t \<Longrightarrow> tok \<noteq> [] \<and> CHR '' '' \<notin> set tok"
  unfolding jwt_contract_def by blast

lemma auth_bearer_valid:
  assumes "jwt_contract P" and "jwt_verify P tok JWT_SECRET (now e)"
  shows "authMiddleware P e (Some (''Bearer '' @ tok)) = None"
proof -
  from contract_token [OF assms] have "tok \<noteq> []" by simp
  moreover have "replace_first ''Bearer '' [] (''Bearer '' @ tok) = tok"
    using replace_first_hit [of "''Bearer ''" "[]" tok] by (simp only: append_Nil)
  ultimately show ?thesis using assms(2)
    by (simp add: authMiddleware_def del: replace_first.simps)
qed

lemma auth_raw_valid:
  assumes "jwt_contract P" and "jwt_verify P tok JWT_SECRET (now e)"
  shows "authMiddleware P e (Some tok) = None"
proof -
  from contract_token [OF assms] have ne: "tok \<noteq> []" and sp: "CHR '' '' \<notin> set tok"
    by simp_all
  from replace_first_no_space [OF sp] ne assms(2) show ?thesis
    by (simp add: authMiddleware_def del: replace_first.simps)
qed

lemma auth_lower_prefix:
  assumes "jwt_contract P"
  shows "authMiddleware P e (Some (''bearer '' @ x)) =
     Some (res_status_json 401 (msg_obj msg_login_expired))"
proof -
  let ?tok = "''bearer '' @ replace_first ''Bearer '' [] x"
  have r: "replace_first ''Bearer '' [] (''bearer '' @ x) = ?tok"
    by (rule replace_first_lower)
  have "CHR '' '' \<in> set ?tok" by simp
  with assms have "\<not> jwt_verify P ?tok JWT_SECRET (now e)"
    unfolding jwt_contract_def by blast
  moreover have "?tok \<noteq> []" by simp
  ultimately show ?thesis
    unfolding authMiddleware_def r [symmetric] Let_def
    by (simp del: replace_first.simps)
qed

lemma auth_rejects:
  "authMiddleware P e a = Some r \<Longrightarrow>
   r = res_status_json 401 (msg_obj msg_not_logged_in) \<or>
   r = res_status_json 401 (msg_obj msg_login_expired)"
  by (cases a) (auto simp: authMiddleware_def Let_def split: if_splits simp del: replace_first.simps)

lemma protected_cases:
  "(\<exists>r. authMiddleware P e a = Some r \<and> protected P e a handler s = (r, s)) \<or>
   (authMiddleware P e a = None \<and> protected P e a handler s = handler s)"
  by (cases "authMiddleware P e a") (simp_all add: protected_def)

lemma login_response:
  "login P e b = res_status_json 401 (msg_obj msg_wrong_password) \<or> status (login P e b) = 200"
  by (simp add: login_def Let_def res_json_def)

lemma get_post_response:
  "get_post P rid s = res_status_end 404 \<or> status (get_post P rid s) = 200"
  by (cases "find_first (\<lambda>p. loose_eq P (get_prop p ''id'') rid) (readPosts s)")
    (simp_all add: get_post_def res_json_def)

lemma create_post_response:
  "fst (create_post e b s) = res_status_json 400 (msg_obj msg_missing_title) \<or>
   status (fst (create_post e b s)) = 200"
  by (cases "falsy (b ''title'')") (simp_all add: create_post_def Let_def res_json_def)

lemma update_post_response:
  "fst (update_post P e rid b s) = res_status_end 404 \<or>
   status (fst (update_post P e rid b s)) = 200"
  by (cases "findIndex (\<lambda>p. loose_eq P (get_prop p ''id'') rid) (readPosts s)")
    (simp_all add: update_post_def Let_def res_json_def)

lemma delete_post_response: "status (fst (delete_post P rid s)) = 200"
  by (simp add: delete_post_def Let_def res_json_def)

lemma slice_hex:
  assumes "radix16_contract P" and "0 \<le> x" and "x < 1"
  shows "list_all is_hex_digit (slice 2 (toString16 P x))"
proof -
  from assms have "toString16 P x = ''0'' \<or>
      (\<exists>ds. toString16 P x = ''0.'' @ ds \<and> list_all is_hex_digit ds)"
    unfolding radix16_contract_def by blast
  then show ?thesis
  proof
    assume "toString16 P x = ''0''"
    then show ?thesis by (simp add: slice_def)
  next
    assume "\<exists>ds. toString16 P x = ''0.'' @ ds \<and> list_all is_hex_digit ds"
    then obtain ds where "toString16 P x = ''0.'' @ ds" and "list_all is_hex_digit ds"
      by blast
    then show ?thesis by (simp add: slice_def)
  qed
qed

lemma upload_accepted:
  assumes "multer_single P ''file'' fileSize_limit parts = Next (Some file)"
  shows "upload P e parts s =
     (res_json (JObj [''url'' \<mapsto> JStr (''/uploads/'' @ storage_filename P e file),
                      ''filename'' \<mapsto> JStr (originalname file)]),
      s\<lparr>UPLOAD_DIR := (UPLOAD_DIR s)(storage_filename P e file \<mapsto> content file)\<rparr>)"
  using assms by (simp add: upload_def Let_def)

lemma upload_response:
  "fst (upload P e parts s) = res_status_end 400 \<and>
     multer_single P ''file'' fileSize_limit parts = Next None \<or>
   fst (upload P e parts s) = \<lparr>status = 500, body = ErrorPage\<rparr> \<and>
     multer_single P ''file'' fileSize_limit parts = NextError \<or>
   status (fst (upload P e parts s)) = 200"
proof (cases "multer_single P ''file'' fileSize_limit parts")
  case (Next r)
  then show ?thesis
    by (cases r) (simp_all add: upload_def Let_def res_json_def)
next
  case NextError
  then show ?thesis by (simp add: upload_def)
qed

subsection \<open>The sample platform\<close>

text \<open>The sample platform keeps the contract of the token library.\<close>

lemma dec_digits_ne: "dec_digits n \<noteq> []"
  by (induction n rule: dec_digits.induct) (simp split: if_splits)

lemma is_digit_digit_char: "d < 10 \<Longrightarrow> is_digit (digit_char d)"
  by (simp add: is_digit_def digit_char_def)

lemma digits_dec_digits: "list_all is_digit (dec_digits n)"
proof (induction n rule: dec_digits.induct)
  case (1 n)
  show ?case
  proof (cases "n < 10")
    case True
    then show ?thesis by (simp add: is_digit_digit_char)
  next
    case False
    with 1 have "list_all is_digit (dec_digits (n div 10))" by simp
    moreover have "is_digit (digit_char (n mod 10))" by (simp add: is_digit_digit_char)
    ultimately show ?thesis using False by (subst dec_digits.simps) simp
  qed
qed

lemma dec_value_snoc: "dec_value (s @ [c]) = 10 * dec_value s + (of_char c - 48)"
  by (simp add: dec_value_def)

lemma of_char_digit_char: "d < 10 \<Longrightarrow> of_char (digit_char d) - 48 = d"
  by (simp add: digit_char_def)

lemma dec_value_dec_digits: "dec_value (dec_digits n) = n"
proof (induction n rule: dec_digits.induct)
  case (1 n)
  show ?case
  proof (cases "n < 10")
    case True
    then show ?thesis by (simp add: dec_value_def of_char_digit_char)
  next
    case False
    with 1 have "dec_value (dec_digits (n div 10)) = n div 10" by simp
    with False show ?thesis
      by (subst dec_digits.simps) (simp add: dec_value_snoc of_char_digit_char)
  qed
qed

lemma is_digit_no_space: "list_all is_digit s \<Longrightarrow> CHR '' '' \<notin> set s"
  by (induction s) (auto simp: is_digit_def)

lemma sample_contract: "jwt_contract sample_platform"
  unfolding jwt_contract_def sample_platform_def
  by (auto simp: sample_sign_def sample_verify_def dec_digits_ne digits_dec_digits
      dec_value_dec_digits is_digit_no_space simp del: dec_digits.simps)

lemma sample_token: "sample_sign payload key ex 1700000000000 = ''1700086400''"
  by (simp add: sample_sign_def digit_char_def char_of_eq_iff)

lemma sample_verify_token:
  "jwt_verify sample_platform ''1700086400'' JWT_SECRET (now sample_env)"
  by (simp add: sample_platform_def sample_verify_def sample_env_def is_digit_def dec_value_def)

lemma sample_name: "NumberToString 1700000000000 = ''1700000000000''"
  by (simp add: NumberToString_def digit_char_def char_of_eq_iff)

lemma hex_digit_is_hex: "d < 16 \<Longrightarrow> is_hex_digit (hex_digit d)"
proof -
  assume "d < 16"
  then have "d < length ''0123456789abcdef''" by simp
  then have "''0123456789abcdef'' ! d \<in> set ''0123456789abcdef''"
    by (rule nth_mem)
  then show ?thesis by (simp only: is_hex_digit_def hex_digit_def)
qed

lemma hex_fraction_is_hex:
  "0 \<le> x \<Longrightarrow> x < 1 \<Longrightarrow> list_all is_hex_digit (hex_fraction n x)"
proof (induction n arbitrary: x)
  case 0
  then show ?case by simp
next
  case (Suc n)
  let ?d = "\<lfloor>16 * x\<rfloor>"
  have d0: "0 \<le> ?d" using Suc.prems(1) by simp
  have "16 * x < 16" using Suc.prems(2) by simp
  then have d16: "?d < 16" by (simp add: floor_less_iff)
  have r0: "0 \<le> 16 * x - of_int ?d" by simp
  have r1: "16 * x - of_int ?d < 1" by linarith
  have "is_hex_digit (hex_digit (nat ?d))"
    using d0 d16 by (intro hex_digit_is_hex) linarith
  moreover have "list_all is_hex_digit (hex_fraction n (16 * x - of_int ?d))"
    using r0 r1 by (rule Suc.IH)
  ultimately show ?case by simp
qed

lemma sample_radix16: "radix16_contract sample_platform"
  unfolding radix16_contract_def
  by (simp add: sample_platform_def sample_toString16_def hex_fraction_is_hex
      del: hex_fraction.simps)

lemma sample_random_hex:
  "slice 2 (toString16 sample_platform (9386524 / 16777216)) = ''8f3a1c''"
  by code_simp

lemma sample_random_half:
  "slice 2 (toString16 sample_platform (1 / 2)) = ''8''"
  by code_simp

lemma sample_extname_png: "path_extname sample_platform ''cat.png'' = ''.png''"
  by (simp add: sample_platform_def sample_extname_def)

lemma sample_extname_txt: "path_extname sample_platform ''notes.txt'' = ''.txt''"
  by (simp add: sample_platform_def sample_extname_def)

lemma sample_auth:
  "authMiddleware sample_platform sample_env (Some ''Bearer 1700086400'') = None"
  using auth_bearer_valid [OF sample_contract sample_verify_token] by simp

section \<open>Creating a post\<close>

text \<open>
  Claim C1.  For a request body whose title is not empty (not falsy), creating a post
  builds the post with the id \<^verbatim>\<open>Date.now()\<close>, the title and the content of the body, the
  \<^verbatim>\<open>createdAt\<close> of the moment and no \<^verbatim>\<open>updatedAt\<close>, stores the collection with this post
  in front of the posts stored before, and answers with status 200 and the post.  If
  moreover the id of every post stored before is at most the time of the creation, then
  the list read after the creation is the new post followed by the list as it was
  before.
\<close>

theorem create_post_prepends:
  assumes "\<not> falsy (req_body ''title'')"
  shows "let post = [''id'' \<mapsto> JNum (now e), ''createdAt'' \<mapsto> JStr (iso e)]
                      (''title'' := req_body ''title'', ''content'' := req_body ''content'');
             s' = snd (create_post e req_body s)
         in create_post e req_body s =
              (\<lparr>status = 200, body = Json (JObj post)\<rparr>, s\<lparr>POST_FILE := post # POST_FILE s\<rparr>) \<and>
            post ''updatedAt'' = None \<and>
            ((\<forall>p\<in>set (POST_FILE s). js_le (ToNumber P (p ''id'')) (Fin (of_int (now e)))) \<longrightarrow>
               (\<exists>older. list_posts P s = \<lparr>status = 200, body = Json (JArr older)\<rparr> \<and>
                  list_posts P s' = \<lparr>status = 200, body = Json (JArr (JObj post # older))\<rparr>))"
proof -
  let ?post = "[''id'' \<mapsto> JNum (now e), ''createdAt'' \<mapsto> JStr (iso e)]
                      (''title'' := req_body ''title'', ''content'' := req_body ''content'')"
  have c: "create_post e req_body s =
      (res_json (JObj ?post), s\<lparr>POST_FILE := ?post # POST_FILE s\<rparr>)"
    using assms by (rule create_post_valid [where req_body = req_body])
  have l: "list_posts P (s\<lparr>POST_FILE := ?post # POST_FILE s\<rparr>) =
     res_json (JArr (JObj ?post #
       map (\<lambda>p. JObj (JSON_stringify p)) (sort_stable (id_desc_after P) (readPosts s))))"
    if "\<forall>p\<in>set (POST_FILE s). js_le (ToNumber P (p ''id'')) (Fin (of_int (now e)))"
  proof (rule list_posts_Cons)
    show "\<forall>p\<in>set (POST_FILE s). \<not> id_desc_after P (JSON_parse ?post) (JSON_parse p)"
      using that by (simp add: id_desc_after_def get_prop_parse js_le_not_pos)
  qed
  show ?thesis
    unfolding c Let_def
    using l by (simp add: res_json_def list_posts_def)
qed

text \<open>The title \<^verbatim>\<open>Hello\<close> on the sample store, whose ids 7 and 5 lie before the sample
  moment.\<close>

theorem create_post_prepends_witness:
  "\<not> falsy ([''title'' \<mapsto> JStr ''Hello''] ''title'') \<and>
   create_post sample_env [''title'' \<mapsto> JStr ''Hello''] sample_state =
     (\<lparr>status = 200, body = Json (JObj
         [''id'' \<mapsto> JNum 1700000000000, ''createdAt'' \<mapsto> JStr ''2023-11-14T22:13:20.000Z'',
          ''title'' \<mapsto> JStr ''Hello''])\<rparr>,
      \<lparr>POST_FILE =
         [[''id'' \<mapsto> JNum 1700000000000, ''createdAt'' \<mapsto> JStr ''2023-11-14T22:13:20.000Z'',
           ''title'' \<mapsto> JStr ''Hello''], post_b, post_a],
       UPLOAD_DIR = Map.empty\<rparr>) \<and>
   list_posts sample_platform
     (snd (create_post sample_env [''title'' \<mapsto> JStr ''Hello''] sample_state)) =
     \<lparr>status = 200, body = Json (JArr
         [JObj [''id'' \<mapsto> JNum 1700000000000,
                ''createdAt'' \<mapsto> JStr ''2023-11-14T22:13:20.000Z'', ''title'' \<mapsto> JStr ''Hello''],
          JObj post_b, JObj post_a])\<rparr>"
proof -
  have t: "\<not> falsy ([''title'' \<mapsto> JStr ''Hello''] ''title'')" by simp
  have le: "\<forall>p\<in>set (POST_FILE sample_state).
      js_le (ToNumber sample_platform (p ''id'')) (Fin (of_int (now sample_env)))"
    by (simp add: sample_state_def post_a_def post_b_def sample_env_def)
  have old: "list_posts sample_platform sample_state =
      \<lparr>status = 200, body = Json (JArr [JObj post_b, JObj post_a])\<rparr>"
    by (simp add: list_posts_def res_json_def sort_stable_def readPosts_def sample_state_def
        id_desc_after_def get_prop_parse JSON_stringify_parse)
      (simp add: post_a_def post_b_def)
  have m: "[''id'' \<mapsto> JNum 1700000000000, ''createdAt'' \<mapsto> JStr ''2023-11-14T22:13:20.000Z'']
           (''title'' \<mapsto> JStr ''Hello'', ''content'' := None) =
           [''id'' \<mapsto> JNum 1700000000000, ''createdAt'' \<mapsto> JStr ''2023-11-14T22:13:20.000Z'',
            ''title'' \<mapsto> JStr ''Hello'']"
    by (rule ext) simp
  note F = create_post_prepends [where req_body = "[''title'' \<mapsto> JStr ''Hello'']"
      and e = sample_env and s = sample_state and P = sample_platform, OF t]
  have c: "create_post sample_env [''title'' \<mapsto> JStr ''Hello''] sample_state =
     (\<lparr>status = 200, body = Json (JObj
         [''id'' \<mapsto> JNum 1700000000000, ''createdAt'' \<mapsto> JStr ''2023-11-14T22:13:20.000Z'',
          ''title'' \<mapsto> JStr ''Hello''])\<rparr>,
      \<lparr>POST_FILE =
         [[''id'' \<mapsto> JNum 1700000000000, ''createdAt'' \<mapsto> JStr ''2023-11-14T22:13:20.000Z'',
           ''title'' \<mapsto> JStr ''Hello''], post_b, post_a],
       UPLOAD_DIR = Map.empty\<rparr>)"
    using F m by (simp add: Let_def sample_env_def sample_state_def)
  have l: "list_posts sample_platform
     (snd (create_post sample_env [''title'' \<mapsto> JStr ''Hello''] sample_state)) =
     \<lparr>status = 200, body = Json (JArr
         [JObj [''id'' \<mapsto> JNum 1700000000000,
                ''createdAt'' \<mapsto> JStr ''2023-11-14T22:13:20.000Z'', ''title'' \<mapsto> JStr ''Hello''],
          JObj post_b, JObj post_a])\<rparr>"
    using F le old m unfolding c Let_def
    by (simp add: sample_env_def sample_state_def)
  from t c l show ?thesis by blast
qed

section \<open>The error responses\<close>

text \<open>
  Claim C2, as the code has it.  Every response of a route whose status is not 200 is,
  by its route, one of these.  The login answers 401 with the message of the wrong
  password.  A protected route answers 401 with the message of the missing login or of
  the expired login.  Creating a post answers 400 with the message of the missing title.
  A request that matches no route is answered 404 with the message \<^verbatim>\<open>API Not Found\<close>.
  These carry a body of the form \<^verbatim>\<open>{ msg: string }\<close>.  Reading or updating a post that
  is not there answers 404, and an upload in which \<^verbatim>\<open>multer\<close> finds no file answers 400,
  and these carry no body at all.  (An upload that \<^verbatim>\<open>multer\<close> refuses is answered with
  status 500 and the error page of the framework.)  The list of the posts has no error
  response.
\<close>

theorem error_responses:
  "status (fst (handle P e req s)) \<noteq> 200 \<longrightarrow>
     (case req of
        Login b \<Rightarrow>
          fst (handle P e req s) =
            \<lparr>status = 401, body = Json (JObj [''msg'' \<mapsto> JStr msg_wrong_password])\<rparr>
      | ListPosts \<Rightarrow> False
      | GetPost rid \<Rightarrow> fst (handle P e req s) = \<lparr>status = 404, body = NoBody\<rparr>
      | CreatePost a b \<Rightarrow>
          fst (handle P e req s) =
            \<lparr>status = 401, body = Json (JObj [''msg'' \<mapsto> JStr msg_not_logged_in])\<rparr> \<or>
          fst (handle P e req s) =
            \<lparr>status = 401, body = Json (JObj [''msg'' \<mapsto> JStr msg_login_expired])\<rparr> \<or>
          fst (handle P e req s) =
            \<lparr>status = 400, body = Json (JObj [''msg'' \<mapsto> JStr msg_missing_title])\<rparr>
      | UpdatePost a rid b \<Rightarrow>
          fst (handle P e req s) =
            \<lparr>status = 401, body = Json (JObj [''msg'' \<mapsto> JStr msg_not_logged_in])\<rparr> \<or>
          fst (handle P e req s) =
            \<lparr>status = 401, body = Json (JObj [''msg'' \<mapsto> JStr msg_login_expired])\<rparr> \<or>
          fst (handle P e req s) = \<lparr>status = 404, body = NoBody\<rparr>
      | DeletePost a rid \<Rightarrow>
          fst (handle P e req s) =
            \<lparr>status = 401, body = Json (JObj [''msg'' \<mapsto> JStr msg_not_logged_in])\<rparr> \<or>
          fst (handle P e req s) =
            \<lparr>status = 401, body = Json (JObj [''msg'' \<mapsto> JStr msg_login_expired])\<rparr>
      | Upload a parts \<Rightarrow>
          fst (handle P e req s) =
            \<lparr>status = 401, body = Json (JObj [''msg'' \<mapsto> JStr msg_not_logged_in])\<rparr> \<or>
          fst (handle P e req s) =
            \<lparr>status = 401, body = Json (JObj [''msg'' \<mapsto> JStr msg_login_expired])\<rparr> \<or>
          fst (handle P e req s) = \<lparr>status = 400, body = NoBody\<rparr> \<and>
            multer_single P ''file'' fileSize_limit parts = Next None \<or>
          fst (handle P e req s) = \<lparr>status = 500, body = ErrorPage\<rparr> \<and>
            multer_single P ''file'' fileSize_limit parts = NextError
      | Unmatched \<Rightarrow>
          fst (handle P e req s) =
            \<lparr>status = 404, body = Json (JObj [''msg'' \<mapsto> JStr msg_api_not_found])\<rparr>)"
proof (cases req)
  case (Login b)
  with login_response [of P e b] show ?thesis
    by (auto simp: res_status_json_def msg_obj_def)
next
  case ListPosts
  then show ?thesis by (simp add: list_posts_def Let_def res_json_def)
next
  case (GetPost rid)
  with get_post_response [of P rid s] show ?thesis
    by (auto simp: res_status_end_def)
next
  case (CreatePost a b)
  with protected_cases [of P e a "create_post e b" s] create_post_response [of e b s]
    auth_rejects [of P e a]
  show ?thesis
    by (auto simp: res_status_json_def msg_obj_def)
next
  case (UpdatePost a rid b)
  with protected_cases [of P e a "update_post P e rid b" s] update_post_response [of P e rid b s]
    auth_rejects [of P e a]
  show ?thesis
    by (auto simp: res_status_json_def res_status_end_def msg_obj_def)
next
  case (DeletePost a rid)
  with protected_cases [of P e a "delete_post P rid" s] delete_post_response [of P rid s]
    auth_rejects [of P e a]
  show ?thesis
    by (auto simp: res_status_json_def msg_obj_def)
next
  case (Upload a parts)
  with protected_cases [of P e a "upload P e parts" s] upload_response [of P e parts s]
    auth_rejects [of P e a]
  show ?thesis
    by (auto simp: res_status_json_def res_status_end_def msg_obj_def)
next
  case Unmatched
  then show ?thesis by (simp add: res_status_json_def msg_obj_def)
qed

text \<open>On the sample store: a request that matches no route, the post with the id 9, which
  is not there, and a login without a password.\<close>

theorem error_responses_witness:
  "status (fst (handle sample_platform sample_env Unmatched sample_state)) \<noteq> 200 \<and>
   fst (handle sample_platform sample_env Unmatched sample_state) =
     \<lparr>status = 404, body = Json (JObj [''msg'' \<mapsto> JStr ''API Not Found''])\<rparr> \<and>
   status (fst (handle sample_platform sample_env (GetPost ''9'') sample_state)) \<noteq> 200 \<and>
   fst (handle sample_platform sample_env (GetPost ''9'') sample_state) =
     \<lparr>status = 404, body = NoBody\<rparr> \<and>
   status (fst (handle sample_platform sample_env (Login Map.empty) sample_state)) \<noteq> 200 \<and>
   fst (handle sample_platform sample_env (Login Map.empty) sample_state) =
     \<lparr>status = 401, body = Json (JObj [''msg'' \<mapsto> JStr msg_wrong_password])\<rparr>"
proof -
  have u: "status (fst (handle sample_platform sample_env Unmatched sample_state)) \<noteq> 200"
    by (simp add: res_status_json_def)
  have g: "status (fst (handle sample_platform sample_env (GetPost ''9'') sample_state)) \<noteq> 200"
    by (simp add: get_post_def readPosts_def sample_state_def get_prop_parse post_a_def
        post_b_def sample_platform_def sample_StringToNumber_def is_digit_def dec_value_def
        res_status_end_def)
  have l: "status (fst (handle sample_platform sample_env (Login Map.empty) sample_state)) \<noteq> 200"
    by (simp add: login_def res_status_json_def)
  from error_responses [of sample_platform sample_env Unmatched sample_state] u
    error_responses [of sample_platform sample_env "GetPost ''9''" sample_state] g
    error_responses [of sample_platform sample_env "Login Map.empty" sample_state] l
  show ?thesis
    by (simp add: msg_api_not_found_def)
qed

text \<open>The claim gives every error response a body \<^verbatim>\<open>{ msg: string }\<close>.  On the sample
  store, reading the post with the id 9, updating it with a valid token, and an upload
  with a valid token and no file are answered 404, 404 and 400 without a body.\<close>

theorem error_without_body_counterexample:
  "handle sample_platform sample_env (GetPost ''9'') sample_state =
     (\<lparr>status = 404, body = NoBody\<rparr>, sample_state) \<and>
   handle sample_platform sample_env
       (UpdatePost (Some ''Bearer 1700086400'') ''9'' [''title'' \<mapsto> JStr ''T'']) sample_state =
     (\<lparr>status = 404, body = NoBody\<rparr>, sample_state) \<and>
   handle sample_platform sample_env (Upload (Some ''Bearer 1700086400'') []) sample_state =
     (\<lparr>status = 400, body = NoBody\<rparr>, sample_state)"
proof -
  have no: "\<forall>p\<in>set (POST_FILE sample_state). \<not> loose_eq sample_platform (p ''id'') ''9''"
    by (simp add: sample_state_def post_a_def post_b_def sample_platform_def
        sample_StringToNumber_def is_digit_def dec_value_def)
  have 1: "handle sample_platform sample_env (GetPost ''9'') sample_state =
     (\<lparr>status = 404, body = NoBody\<rparr>, sample_state)"
    by (simp add: get_post_def readPosts_def sample_state_def get_prop_parse post_a_def
        post_b_def sample_platform_def sample_StringToNumber_def is_digit_def dec_value_def
        res_status_end_def)
  have 2: "handle sample_platform sample_env
       (UpdatePost (Some ''Bearer 1700086400'') ''9'' [''title'' \<mapsto> JStr ''T'']) sample_state =
     (\<lparr>status = 404, body = NoBody\<rparr>, sample_state)"
    using update_post_missing [OF no] sample_auth
    by (simp add: protected_def res_status_end_def del: replace_first.simps)
  have m: "multer_single sample_platform ''file'' fileSize_limit [] = Next None"
    by (simp add: sample_platform_def sample_multer_single_def)
  have 3: "handle sample_platform sample_env (Upload (Some ''Bearer 1700086400'') [])
       sample_state = (\<lparr>status = 400, body = NoBody\<rparr>, sample_state)"
    using sample_auth m
    by (simp add: protected_def upload_def res_status_end_def del: replace_first.simps)
  from 1 2 3 show ?thesis by simp
qed

section \<open>Login and the token\<close>

text \<open>
  Claim C3.  With a token library that keeps its contract: if the password of the
  request is exactly the string \<^verbatim>\<open>666\<close>, the login answers with status 200 and a token
  signed over the role \<^verbatim>\<open>admin\<close> with the server's secret and \<^verbatim>\<open>expiresIn: "24h"\<close>; sent
  as \<^verbatim>\<open>Bearer <token>\<close> at any moment whose second lies less than 86400 seconds after
  the second of the login, this token passes \<^verbatim>\<open>authMiddleware\<close>, and every protected
  route runs its handler.  With any other password, or none, the login answers with
  status 401 and the message of the wrong password, which holds no token.  So the status
  is 200 exactly for the password \<^verbatim>\<open>666\<close>.
\<close>

theorem login_issues_token:
  assumes "jwt_contract P"
  shows "(req_body ''password'' = Some (JStr ''666'') \<longrightarrow>
            login P e req_body =
              \<lparr>status = 200, body = Json (JObj [''token'' \<mapsto>
                 JStr (jwt_sign P [''role'' \<mapsto> JStr ''admin''] JWT_SECRET ''24h'' (now e))])\<rparr> \<and>
            (\<forall>e'. now e' div 1000 < now e div 1000 + 86400 \<longrightarrow>
               authMiddleware P e' (Some (''Bearer '' @
                 jwt_sign P [''role'' \<mapsto> JStr ''admin''] JWT_SECRET ''24h'' (now e))) = None \<and>
               (\<forall>handler s. protected P e' (Some (''Bearer '' @
                 jwt_sign P [''role'' \<mapsto> JStr ''admin''] JWT_SECRET ''24h'' (now e))) handler s =
                   handler s))) \<and>
         (req_body ''password'' \<noteq> Some (JStr ''666'') \<longrightarrow>
            login P e req_body =
              \<lparr>status = 401, body = Json (JObj [''msg'' \<mapsto> JStr msg_wrong_password])\<rparr>) \<and>
         (status (login P e req_body) = 200 \<longleftrightarrow> req_body ''password'' = Some (JStr ''666''))"
proof -
  let ?tok = "jwt_sign P [''role'' \<mapsto> JStr ''admin''] JWT_SECRET ''24h'' (now e)"
  have v: "authMiddleware P e' (Some (''Bearer '' @ ?tok)) = None"
    if "now e' div 1000 < now e div 1000 + 86400" for e'
  proof (rule auth_bearer_valid [OF assms])
    from assms that show "jwt_verify P ?tok JWT_SECRET (now e')"
      unfolding jwt_contract_def by blast
  qed
  then have p: "protected P e' (Some (''Bearer '' @ ?tok)) handler s = handler s"
    if "now e' div 1000 < now e div 1000 + 86400" for e' handler s
    using that by (simp add: protected_def del: replace_first.simps)
  show ?thesis
    using v p
    by (simp add: login_def Let_def ADMIN_PASSWORD_def res_json_def res_status_json_def msg_obj_def)
qed

text \<open>On the sample platform: the login at the sample moment, the token one hour later,
  and a login with the number 666 in place of the string.\<close>

theorem login_issues_token_witness:
  "jwt_contract sample_platform \<and>
   login sample_platform sample_env [''password'' \<mapsto> JStr ''666''] =
     \<lparr>status = 200, body = Json (JObj [''token'' \<mapsto> JStr ''1700086400''])\<rparr> \<and>
   authMiddleware sample_platform (sample_env\<lparr>now := 1700003600000\<rparr>)
     (Some ''Bearer 1700086400'') = None \<and>
   login sample_platform sample_env [''password'' \<mapsto> JNum 666] =
     \<lparr>status = 401, body = Json (JObj [''msg'' \<mapsto> JStr msg_wrong_password])\<rparr>"
proof -
  have tok: "jwt_sign sample_platform [''role'' \<mapsto> JStr ''admin''] JWT_SECRET ''24h''
      (now sample_env) = ''1700086400''"
    by (simp add: sample_platform_def sample_env_def sample_token)
  note ok = login_issues_token [OF sample_contract, where e = sample_env
      and req_body = "[''password'' \<mapsto> JStr ''666'']"]
  note bad = login_issues_token [OF sample_contract, where e = sample_env
      and req_body = "[''password'' \<mapsto> JNum 666]"]
  have 1: "login sample_platform sample_env [''password'' \<mapsto> JStr ''666''] =
     \<lparr>status = 200, body = Json (JObj [''token'' \<mapsto> JStr ''1700086400''])\<rparr>"
    using ok by (simp add: tok)
  have "now (sample_env\<lparr>now := 1700003600000\<rparr>) div 1000 < now sample_env div 1000 + 86400"
    by (simp add: sample_env_def)
  moreover have "[''password'' \<mapsto> JStr ''666''] ''password'' = Some (JStr ''666'')"
    by simp
  ultimately have 2: "authMiddleware sample_platform (sample_env\<lparr>now := 1700003600000\<rparr>)
     (Some (''Bearer '' @ ''1700086400'')) = None"
    using ok unfolding tok by blast
  have 3: "login sample_platform sample_env [''password'' \<mapsto> JNum 666] =
     \<lparr>status = 401, body = Json (JObj [''msg'' \<mapsto> JStr msg_wrong_password])\<rparr>"
    using bad by simp
  from sample_contract 1 2 3 show ?thesis by simp
qed

section \<open>Updating a post\<close>

text \<open>
  Claim C4.  Let the post at index \<open>i\<close> be the first stored post whose id loosely equals
  the requested id (every id that matches some post has such a first post).  Then the
  update answers with status 200 and the updated post, and stores a collection that
  differs from the old one at index \<open>i\<close> only.  The updated post has the title and the
  content of the request body and the \<^verbatim>\<open>updatedAt\<close> of the moment; its id, its
  \<^verbatim>\<open>createdAt\<close> and every other property are those of the old post.  The collection
  keeps its length, every post at another index, and the uploaded files.
\<close>

theorem update_post_frame:
  assumes "i < length (POST_FILE s)"
    and "loose_eq P ((POST_FILE s ! i) ''id'') rid"
    and "\<forall>j<i. \<not> loose_eq P ((POST_FILE s ! j) ''id'') rid"
  shows "let q = (POST_FILE s ! i)(''title'' := req_body ''title'',
                   ''content'' := req_body ''content'', ''updatedAt'' \<mapsto> JStr (iso e));
             s' = snd (update_post P e rid req_body s)
         in update_post P e rid req_body s =
              (\<lparr>status = 200, body = Json (JObj q)\<rparr>, s\<lparr>POST_FILE := (POST_FILE s)[i := q]\<rparr>) \<and>
            q ''id'' = (POST_FILE s ! i) ''id'' \<and>
            q ''createdAt'' = (POST_FILE s ! i) ''createdAt'' \<and>
            (\<forall>k. k \<noteq> ''title'' \<and> k \<noteq> ''content'' \<and> k \<noteq> ''updatedAt'' \<longrightarrow>
                 q k = (POST_FILE s ! i) k) \<and>
            length (POST_FILE s') = length (POST_FILE s) \<and>
            POST_FILE s' ! i = q \<and>
            (\<forall>j. j \<noteq> i \<longrightarrow> POST_FILE s' ! j = POST_FILE s ! j) \<and>
            UPLOAD_DIR s' = UPLOAD_DIR s"
proof -
  have "findIndex (\<lambda>p. loose_eq P (p ''id'') rid) (POST_FILE s) = Some i"
    using assms findIndex_first [of i "POST_FILE s" "\<lambda>p. loose_eq P (p ''id'') rid"] by simp
  from update_post_found [OF this, of e req_body] assms(1) show ?thesis
    by (simp add: res_json_def Let_def)
qed

text \<open>On the sample store, a new title for the post with the id 5: the other post is
  as before, and the updated one keeps its id.\<close>

theorem update_post_frame_witness:
  "update_post sample_platform sample_env ''5'' [''title'' \<mapsto> JStr ''New''] sample_state =
     (\<lparr>status = 200, body = Json (JObj
         (post_a(''title'' \<mapsto> JStr ''New'', ''content'' := None,
                 ''updatedAt'' \<mapsto> JStr ''2023-11-14T22:13:20.000Z'')))\<rparr>,
      \<lparr>POST_FILE = [post_b,
         post_a(''title'' \<mapsto> JStr ''New'', ''content'' := None,
                ''updatedAt'' \<mapsto> JStr ''2023-11-14T22:13:20.000Z'')],
       UPLOAD_DIR = Map.empty\<rparr>) \<and>
   (post_a(''title'' \<mapsto> JStr ''New'', ''content'' := None,
           ''updatedAt'' \<mapsto> JStr ''2023-11-14T22:13:20.000Z'')) ''id'' = Some (JNum 5)"
proof -
  have h: "1 < length (POST_FILE sample_state)"
    "loose_eq sample_platform ((POST_FILE sample_state ! 1) ''id'') ''5''"
    "\<forall>j<1. \<not> loose_eq sample_platform ((POST_FILE sample_state ! j) ''id'') ''5''"
    by (simp_all add: sample_state_def post_a_def post_b_def sample_platform_def
        sample_StringToNumber_def is_digit_def dec_value_def)
  from update_post_frame [OF h, where e = sample_env and req_body = "[''title'' \<mapsto> JStr ''New'']"]
  show ?thesis
    by (simp add: Let_def sample_state_def sample_env_def) (simp add: post_a_def)
qed

section \<open>Creating a post without a title\<close>

text \<open>
  Claim C5.  Whatever the stored collection, creating a post whose title is missing or
  empty (or any other falsy value) answers with status 400 and the message of the
  missing title, and returns the state it was given: the posts file is neither read nor
  written.  Through the route, the state is the same also when the request is turned
  away by \<^verbatim>\<open>authMiddleware\<close>, and the answer is the 400 once it has passed.
\<close>

theorem create_post_rejects_falsy_title:
  assumes "falsy (req_body ''title'')"
  shows "create_post e req_body s = (res_status_json 400 (msg_obj msg_missing_title), s) \<and>
         snd (handle P e (CreatePost a req_body) s) = s \<and>
         (authMiddleware P e a = None \<longrightarrow>
            fst (handle P e (CreatePost a req_body) s) =
              \<lparr>status = 400, body = Json (JObj [''msg'' \<mapsto> JStr msg_missing_title])\<rparr>)"
  using assms
  by (simp add: create_post_invalid protected_def res_status_json_def msg_obj_def
      split: option.splits)

text \<open>A body with no title, and a body whose title is the empty string, on the sample
  store.\<close>

theorem create_post_rejects_falsy_title_witness:
  "falsy (Map.empty ''title'') \<and> falsy ([''title'' \<mapsto> JStr ''''] ''title'') \<and>
   create_post sample_env Map.empty sample_state =
     (\<lparr>status = 400, body = Json (JObj [''msg'' \<mapsto> JStr msg_missing_title])\<rparr>, sample_state) \<and>
   snd (handle sample_platform sample_env (CreatePost None [''title'' \<mapsto> JStr '''']) sample_state)
     = sample_state"
  using create_post_rejects_falsy_title [of Map.empty sample_env sample_state sample_platform None]
    create_post_rejects_falsy_title [of "[''title'' \<mapsto> JStr '''']" sample_env sample_state
      sample_platform None]
  by (simp add: res_status_json_def msg_obj_def)

section \<open>Updating a post that is not there\<close>

text \<open>
  Claim C6.  Whatever the stored collection, when the requested id loosely equals the
  id of no stored post, the update answers with status 404 (and no body) and returns the
  state it was given.  Through the route the state is the same whatever
  \<^verbatim>\<open>authMiddleware\<close> decides, and the status is 404 once it has passed.
\<close>

theorem update_post_unknown_id:
  assumes "\<forall>p\<in>set (POST_FILE s). \<not> loose_eq P (p ''id'') rid"
  shows "update_post P e rid req_body s = (\<lparr>status = 404, body = NoBody\<rparr>, s) \<and>
         snd (handle P e (UpdatePost a rid req_body) s) = s \<and>
         (authMiddleware P e a = None \<longrightarrow>
            status (fst (handle P e (UpdatePost a rid req_body) s)) = 404)"
  using update_post_missing [OF assms]
  by (simp add: protected_def res_status_end_def split: option.splits)

text \<open>The id 9 on the sample store, whose posts have the ids 7 and 5.\<close>

theorem update_post_unknown_id_witness:
  "\<not> loose_eq sample_platform (post_b ''id'') ''9'' \<and>
   \<not> loose_eq sample_platform (post_a ''id'') ''9'' \<and>
   update_post sample_platform sample_env ''9'' [''title'' \<mapsto> JStr ''T''] sample_state =
     (\<lparr>status = 404, body = NoBody\<rparr>, sample_state)"
proof -
  have h: "\<forall>p\<in>set (POST_FILE sample_state). \<not> loose_eq sample_platform (p ''id'') ''9''"
    by (simp add: sample_state_def post_a_def post_b_def sample_platform_def
        sample_StringToNumber_def is_digit_def dec_value_def)
  from update_post_unknown_id [OF h] h show ?thesis
    by (simp add: sample_state_def)
qed

section \<open>Deleting posts\<close>

text \<open>
  Claim C7.  Deleting always answers \<^verbatim>\<open>{ ok: true }\<close> with status 200.  It removes from
  the stored collection every post whose id loosely equals the requested id and keeps
  the others, in their order; the uploaded files are untouched.  When no stored id
  matches, the state after is the state before.  Deleting a second time with the same
  id gives the same answer and the same stored collection as deleting once.
\<close>

theorem delete_post_idempotent:
  "fst (delete_post P rid s) = \<lparr>status = 200, body = Json (JObj [''ok'' \<mapsto> JBool True])\<rparr> \<and>
   POST_FILE (snd (delete_post P rid s)) =
     filter (\<lambda>p. \<not> loose_eq P (p ''id'') rid) (POST_FILE s) \<and>
   UPLOAD_DIR (snd (delete_post P rid s)) = UPLOAD_DIR s \<and>
   ((\<forall>p\<in>set (POST_FILE s). \<not> loose_eq P (p ''id'') rid) \<longrightarrow>
      snd (delete_post P rid s) = s) \<and>
   delete_post P rid (snd (delete_post P rid s)) = delete_post P rid s"
proof -
  have "(\<forall>p\<in>set (POST_FILE s). \<not> loose_eq P (p ''id'') rid) \<longrightarrow>
      filter (\<lambda>p. \<not> loose_eq P (p ''id'') rid) (POST_FILE s) = POST_FILE s"
    by simp
  then show ?thesis
    by (simp add: delete_post_eq res_json_def)
qed

text \<open>On the sample store: deleting the id 7 leaves the post with the id 5, deleting the
  id 9 leaves the store as it is, and deleting the id 7 twice is deleting it once.\<close>

theorem delete_post_idempotent_witness:
  "POST_FILE (snd (delete_post sample_platform ''7'' sample_state)) = [post_a] \<and>
   snd (delete_post sample_platform ''9'' sample_state) = sample_state \<and>
   delete_post sample_platform ''7'' (snd (delete_post sample_platform ''7'' sample_state)) =
     (\<lparr>status = 200, body = Json (JObj [''ok'' \<mapsto> JBool True])\<rparr>,
      \<lparr>POST_FILE = [post_a], UPLOAD_DIR = Map.empty\<rparr>)"
proof -
  have 7: "loose_eq sample_platform (post_b ''id'') ''7''" "\<not> loose_eq sample_platform (post_a ''id'') ''7''"
    and 9: "\<not> loose_eq sample_platform (post_b ''id'') ''9''" "\<not> loose_eq sample_platform (post_a ''id'') ''9''"
    by (simp_all add: post_a_def post_b_def sample_platform_def
        sample_StringToNumber_def is_digit_def dec_value_def)
  from delete_post_idempotent [of sample_platform "''7''" sample_state]
    delete_post_idempotent [of sample_platform "''9''" sample_state] 7 9
  show ?thesis
    by (auto simp add: sample_state_def prod_eq_iff)
qed

section \<open>Uploading a file\<close>

text \<open>
  Claim C8, as the code has it.  With a \<^verbatim>\<open>toString(16)\<close> that keeps its contract and a
  \<^verbatim>\<open>Math.random()\<close> that is at least 0 and below 1: for every file that
  \<^verbatim>\<open>upload.single("file")\<close> accepts, the upload stores the bytes of the file in the
  upload directory under the name made of \<^verbatim>\<open>Date.now()\<close> in decimal digits, a hyphen,
  what follows the first two characters of \<^verbatim>\<open>Math.random()\<close> in base 16, which are
  hexadecimal digits, and \<^verbatim>\<open>path.extname\<close> of the original name.  It answers with status
  200 and the object of the two properties \<^verbatim>\<open>url\<close>, the stored name behind
  \<^verbatim>\<open>/uploads/\<close>, and \<^verbatim>\<open>filename\<close>, the original name.  The posts are untouched, and
  the route does this once \<^verbatim>\<open>authMiddleware\<close> has passed the request.
\<close>

theorem upload_stores_file:
  assumes "multer_single P ''file'' fileSize_limit parts = Next (Some file)"
    and "radix16_contract P"
    and "0 \<le> random e" and "random e < 1"
  shows "let hex = slice 2 (toString16 P (random e));
             name = NumberToString (now e) @ ''-'' @ hex @ path_extname P (originalname file);
             s' = snd (upload P e parts s)
         in list_all is_hex_digit hex \<and>
            upload P e parts s =
              (\<lparr>status = 200, body = Json (JObj [''url'' \<mapsto> JStr (''/uploads/'' @ name),
                  ''filename'' \<mapsto> JStr (originalname file)])\<rparr>,
               s\<lparr>UPLOAD_DIR := (UPLOAD_DIR s)(name \<mapsto> content file)\<rparr>) \<and>
            UPLOAD_DIR s' name = Some (content file) \<and>
            POST_FILE s' = POST_FILE s \<and>
            (authMiddleware P e a = None \<longrightarrow>
               handle P e (Upload a parts) s = upload P e parts s)"
  using upload_accepted [OF assms(1), of e s] slice_hex [OF assms(2-4)]
  by (simp add: Let_def storage_filename_def res_json_def protected_def)

text \<open>A file of two bytes under the field name \<^verbatim>\<open>file\<close>, on the sample platform at the
  sample moment.\<close>

theorem upload_stores_file_witness:
  "multer_single sample_platform ''file'' fileSize_limit
       [\<lparr>fieldname = ''file'', originalname = ''notes.txt'', content = [104, 105]\<rparr>] =
     Next (Some \<lparr>fieldname = ''file'', originalname = ''notes.txt'', content = [104, 105]\<rparr>) \<and>
   radix16_contract sample_platform \<and>
   0 \<le> random sample_env \<and> random sample_env < 1 \<and>
   list_all is_hex_digit ''8f3a1c'' \<and>
   upload sample_platform sample_env
       [\<lparr>fieldname = ''file'', originalname = ''notes.txt'', content = [104, 105]\<rparr>]
       sample_state =
     (\<lparr>status = 200, body = Json (JObj
         [''url'' \<mapsto> JStr ''/uploads/1700000000000-8f3a1c.txt'',
          ''filename'' \<mapsto> JStr ''notes.txt''])\<rparr>,
      \<lparr>POST_FILE = [post_b, post_a],
       UPLOAD_DIR = [''1700000000000-8f3a1c.txt'' \<mapsto> [104, 105]]\<rparr>)"
proof -
  have m: "multer_single sample_platform ''file'' fileSize_limit
       [\<lparr>fieldname = ''file'', originalname = ''notes.txt'', content = [104, 105]\<rparr>] =
     Next (Some \<lparr>fieldname = ''file'', originalname = ''notes.txt'', content = [104, 105]\<rparr>)"
    by (simp add: sample_platform_def sample_multer_single_def fileSize_limit_def)
  have r: "0 \<le> random sample_env" "random sample_env < 1"
    by (simp_all add: sample_env_def)
  have h: "slice 2 (toString16 sample_platform (random sample_env)) = ''8f3a1c''"
    using sample_random_hex by (simp add: sample_env_def)
  have n: "now sample_env = 1700000000000" by (simp add: sample_env_def)
  from upload_stores_file [OF m sample_radix16 r, where s = sample_state]
  have "list_all is_hex_digit ''8f3a1c''"
    and "upload sample_platform sample_env
       [\<lparr>fieldname = ''file'', originalname = ''notes.txt'', content = [104, 105]\<rparr>]
       sample_state =
     (\<lparr>status = 200, body = Json (JObj
         [''url'' \<mapsto> JStr ''/uploads/1700000000000-8f3a1c.txt'',
          ''filename'' \<mapsto> JStr ''notes.txt''])\<rparr>,
      \<lparr>POST_FILE = [post_b, post_a],
       UPLOAD_DIR = [''1700000000000-8f3a1c.txt'' \<mapsto> [104, 105]]\<rparr>)"
    unfolding Let_def h n sample_name
    by (simp_all add: sample_extname_txt sample_state_def)
  with m sample_radix16 r show ?thesis by blast
qed

text \<open>
  The claim gives the name a random part of 64 bits, names the second property of the
  answer \<^verbatim>\<open>originalFilename\<close>, and speaks of every uploaded file.  When \<^verbatim>\<open>Math.random()\<close>
  is 0.5, which is \<^verbatim>\<open>0.8\<close> in base 16, the random part of the name is the one digit
  \<^verbatim>\<open>8\<close>; the answer holds the original name under \<^verbatim>\<open>filename\<close> and nothing under
  \<^verbatim>\<open>originalFilename\<close>; and the same file sent under the field name \<^verbatim>\<open>image\<close> is not
  stored, and is answered with status 500.
\<close>

theorem upload_response_counterexample:
  "upload sample_platform (sample_env\<lparr>random := 1 / 2\<rparr>)
       [\<lparr>fieldname = ''file'', originalname = ''cat.png'', content = [1, 2, 3]\<rparr>] sample_state =
     (\<lparr>status = 200, body = Json (JObj
         [''url'' \<mapsto> JStr ''/uploads/1700000000000-8.png'',
          ''filename'' \<mapsto> JStr ''cat.png''])\<rparr>,
      \<lparr>POST_FILE = [post_b, post_a],
       UPLOAD_DIR = [''1700000000000-8.png'' \<mapsto> [1, 2, 3]]\<rparr>) \<and>
   [''url'' \<mapsto> JStr ''/uploads/1700000000000-8.png'',
    ''filename'' \<mapsto> JStr ''cat.png''] ''originalFilename'' = None \<and>
   upload sample_platform sample_env
       [\<lparr>fieldname = ''image'', originalname = ''cat.png'', content = [1, 2, 3]\<rparr>] sample_state =
     (\<lparr>status = 500, body = ErrorPage\<rparr>, sample_state)"
proof -
  have m: "multer_single sample_platform ''file'' fileSize_limit
       [\<lparr>fieldname = ''file'', originalname = ''cat.png'', content = [1, 2, 3]\<rparr>] =
     Next (Some \<lparr>fieldname = ''file'', originalname = ''cat.png'', content = [1, 2, 3]\<rparr>)"
    by (simp add: sample_platform_def sample_multer_single_def fileSize_limit_def)
  have x: "multer_single sample_platform ''file'' fileSize_limit
       [\<lparr>fieldname = ''image'', originalname = ''cat.png'', content = [1, 2, 3]\<rparr>] = NextError"
    by (simp add: sample_platform_def sample_multer_single_def)
  have h: "slice 2 (toString16 sample_platform (random (sample_env\<lparr>random := 1 / 2\<rparr>))) = ''8''"
    using sample_random_half by simp
  have n: "now (sample_env\<lparr>random := 1 / 2\<rparr>) = 1700000000000" by (simp add: sample_env_def)
  have 1: "upload sample_platform (sample_env\<lparr>random := 1 / 2\<rparr>)
       [\<lparr>fieldname = ''file'', originalname = ''cat.png'', content = [1, 2, 3]\<rparr>] sample_state =
     (\<lparr>status = 200, body = Json (JObj
         [''url'' \<mapsto> JStr ''/uploads/1700000000000-8.png'',
          ''filename'' \<mapsto> JStr ''cat.png''])\<rparr>,
      \<lparr>POST_FILE = [post_b, post_a],
       UPLOAD_DIR = [''1700000000000-8.png'' \<mapsto> [1, 2, 3]]\<rparr>)"
    unfolding upload_def m storage_filename_def Let_def h n sample_name
    by (simp add: res_json_def sample_extname_png sample_state_def)
  have 3: "upload sample_platform sample_env
       [\<lparr>fieldname = ''image'', originalname = ''cat.png'', content = [1, 2, 3]\<rparr>] sample_state =
     (\<lparr>status = 500, body = ErrorPage\<rparr>, sample_state)"
    unfolding upload_def x by simp
  from 1 3 show ?thesis by simp
qed

section \<open>The Authorization header\<close>

text \<open>
  Claim C9.  With a token library that keeps its contract, \<^verbatim>\<open>authMiddleware\<close> does not
  need the prefix \<^verbatim>\<open>Bearer \<close>.  Of a header it removes the first occurrence of
  \<^verbatim>\<open>Bearer \<close>, wherever it stands, and verifies what is left: the request passes exactly
  when that verifies.  A header without an occurrence is verified as it is, so a valid
  token sent alone passes.  A header that starts with \<^verbatim>\<open>bearer \<close> keeps this prefix and
  is answered with status 401 and the message of the expired login, whatever follows.
\<close>

theorem authMiddleware_bearer_prefix:
  assumes "jwt_contract P"
  shows "((\<forall>a' b'. a @ ''Bearer '' @ b = a' @ ''Bearer '' @ b' \<longrightarrow> length a \<le> length a') \<longrightarrow>
            (authMiddleware P e (Some (a @ ''Bearer '' @ b)) = None \<longleftrightarrow>
               jwt_verify P (a @ b) JWT_SECRET (now e))) \<and>
         ((\<forall>a b. h \<noteq> a @ ''Bearer '' @ b) \<longrightarrow>
            (authMiddleware P e (Some h) = None \<longleftrightarrow> jwt_verify P h JWT_SECRET (now e))) \<and>
         (jwt_verify P tok JWT_SECRET (now e) \<longrightarrow> authMiddleware P e (Some tok) = None) \<and>
         authMiddleware P e (Some (''bearer '' @ x)) =
           Some \<lparr>status = 401, body = Json (JObj [''msg'' \<mapsto> JStr msg_login_expired])\<rparr>"
proof (intro conjI impI)
  assume "\<forall>a' b'. a @ ''Bearer '' @ b = a' @ ''Bearer '' @ b' \<longrightarrow> length a \<le> length a'"
  then have "replace_first ''Bearer '' [] (a @ ''Bearer '' @ b) = a @ [] @ b"
    by (rule replace_first_occ)
  then have r: "replace_first ''Bearer '' [] (a @ ''Bearer '' @ b) = a @ b" by simp
  show "authMiddleware P e (Some (a @ ''Bearer '' @ b)) = None \<longleftrightarrow>
      jwt_verify P (a @ b) JWT_SECRET (now e)"
    unfolding authMiddleware_def Let_def option.map r
    using contract_token [OF assms, of "a @ b" JWT_SECRET "now e"]
    by (auto simp del: replace_first.simps)
next
  assume "\<forall>a b. h \<noteq> a @ ''Bearer '' @ b"
  then have r: "replace_first ''Bearer '' [] h = h"
    by (rule replace_first_none) simp
  show "authMiddleware P e (Some h) = None \<longleftrightarrow> jwt_verify P h JWT_SECRET (now e)"
    unfolding authMiddleware_def Let_def option.map r
    using contract_token [OF assms, of h JWT_SECRET "now e"]
    by (auto simp del: replace_first.simps)
next
  assume "jwt_verify P tok JWT_SECRET (now e)"
  with assms show "authMiddleware P e (Some tok) = None"
    by (rule auth_raw_valid)
next
  show "authMiddleware P e (Some (''bearer '' @ x)) =
      Some \<lparr>status = 401, body = Json (JObj [''msg'' \<mapsto> JStr msg_login_expired])\<rparr>"
    using auth_lower_prefix [OF assms, of e x]
    by (simp only: res_status_json_def msg_obj_def)
qed

text \<open>On the sample platform, with the token of the sample moment: alone, behind
  \<^verbatim>\<open>Bearer \<close>, behind \<^verbatim>\<open>bearer \<close>, and behind two \<^verbatim>\<open>Bearer \<close>, of which only the first is
  removed.\<close>

theorem authMiddleware_bearer_prefix_witness:
  "jwt_verify sample_platform ''1700086400'' JWT_SECRET (now sample_env) \<and>
   authMiddleware sample_platform sample_env (Some ''1700086400'') = None \<and>
   authMiddleware sample_platform sample_env (Some ''Bearer 1700086400'') = None \<and>
   authMiddleware sample_platform sample_env (Some ''bearer 1700086400'') =
     Some \<lparr>status = 401, body = Json (JObj [''msg'' \<mapsto> JStr msg_login_expired])\<rparr> \<and>
   \<not> jwt_verify sample_platform ''Bearer 1700086400'' JWT_SECRET (now sample_env) \<and>
   authMiddleware sample_platform sample_env (Some ''Bearer Bearer 1700086400'') \<noteq> None"
proof -
  note T = authMiddleware_bearer_prefix [OF sample_contract, where e = sample_env]
  have first: "\<forall>a' b'. [] @ ''Bearer '' @ t = a' @ ''Bearer '' @ b' \<longrightarrow> length ([]::string) \<le> length a'"
    for t by simp
  have nv: "\<not> jwt_verify sample_platform ''Bearer 1700086400'' JWT_SECRET (now sample_env)"
    by (simp add: sample_platform_def sample_verify_def is_digit_def)
  have 1: "authMiddleware sample_platform sample_env (Some ''1700086400'') = None"
    using T [where tok = "''1700086400''"] sample_verify_token by blast
  have 2: "authMiddleware sample_platform sample_env (Some ''Bearer 1700086400'') = None"
    using T [where a = "[]" and b = "''1700086400''"] first [of "''1700086400''"]
      sample_verify_token by simp
  have 3: "authMiddleware sample_platform sample_env (Some ''bearer 1700086400'') =
     Some \<lparr>status = 401, body = Json (JObj [''msg'' \<mapsto> JStr msg_login_expired])\<rparr>"
    using T [where x = "''1700086400''"] by simp
  have 4: "authMiddleware sample_platform sample_env (Some ''Bearer Bearer 1700086400'') \<noteq> None"
    using T [where a = "[]" and b = "''Bearer 1700086400''"] first [of "''Bearer 1700086400''"] nv
    by simp
  from sample_verify_token 1 2 3 nv 4 show ?thesis by blast
qed

section \<open>What an update overwrites\<close>

text \<open>
  Claim C10.  For the first stored post whose id loosely equals the requested id, the
  update stores the title and the content of the request body whatever the post held
  before: a property the body omits is missing from the stored post afterwards, and an
  empty title is stored as the empty title.  This is the post the update answers with,
  and the post a later \<^verbatim>\<open>GET\<close> of the same id reads from the stored collection.
\<close>

theorem update_post_overwrites:
  assumes "i < length (POST_FILE s)"
    and "loose_eq P ((POST_FILE s ! i) ''id'') rid"
    and "\<forall>j<i. \<not> loose_eq P ((POST_FILE s ! j) ''id'') rid"
  shows "let s' = snd (update_post P e rid req_body s); stored = POST_FILE s' ! i
         in stored ''title'' = req_body ''title'' \<and>
            stored ''content'' = req_body ''content'' \<and>
            fst (update_post P e rid req_body s) = \<lparr>status = 200, body = Json (JObj stored)\<rparr> \<and>
            get_post P rid s' = \<lparr>status = 200, body = Json (JObj stored)\<rparr>"
proof -
  let ?q = "(POST_FILE s ! i)(''title'' := req_body ''title'',
      ''content'' := req_body ''content'', ''updatedAt'' \<mapsto> JStr (iso e))"
  let ?s' = "s\<lparr>POST_FILE := (POST_FILE s)[i := ?q]\<rparr>"
  have fi: "findIndex (\<lambda>p. loose_eq P (p ''id'') rid) (POST_FILE s) = Some i"
    using assms findIndex_first [of i "POST_FILE s" "\<lambda>p. loose_eq P (p ''id'') rid"] by simp
  have upd: "update_post P e rid req_body s = (res_json (JObj ?q), ?s')"
    by (rule update_post_found [OF fi])
  have "loose_eq P (?q ''id'') rid" using assms(2) by simp
  with fi have "findIndex (\<lambda>p. loose_eq P (p ''id'') rid) (POST_FILE ?s') = Some i"
    using findIndex_update [of "\<lambda>p. loose_eq P (p ''id'') rid" "POST_FILE s" i ?q] by simp
  from get_post_found [OF this] have "get_post P rid ?s' = res_json (JObj ?q)"
    using assms(1) by simp
  with assms(1) show ?thesis
    unfolding upd by (simp add: res_json_def Let_def)
qed

text \<open>On the sample store, whose post with the id 7 has a title and a content: after an
  update with an empty body it has neither, and after an update with the empty title its
  title is empty.\<close>

theorem update_post_overwrites_witness:
  "post_b ''title'' = Some (JStr ''B'') \<and> post_b ''content'' = Some (JStr ''second'') \<and>
   (POST_FILE (snd (update_post sample_platform sample_env ''7'' Map.empty sample_state)) ! 0)
      ''title'' = None \<and>
   (POST_FILE (snd (update_post sample_platform sample_env ''7'' Map.empty sample_state)) ! 0)
      ''content'' = None \<and>
   (POST_FILE (snd (update_post sample_platform sample_env ''7'' [''title'' \<mapsto> JStr '''']
      sample_state)) ! 0) ''title'' = Some (JStr '''')"
proof -
  have h: "0 < length (POST_FILE sample_state)"
    "loose_eq sample_platform ((POST_FILE sample_state ! 0) ''id'') ''7''"
    "\<forall>j<0. \<not> loose_eq sample_platform ((POST_FILE sample_state ! j) ''id'') ''7''"
    by (simp_all add: sample_state_def post_a_def post_b_def sample_platform_def
        sample_StringToNumber_def is_digit_def dec_value_def)
  from update_post_overwrites [OF h, where e = sample_env and req_body = Map.empty]
    update_post_overwrites [OF h, where e = sample_env and req_body = "[''title'' \<mapsto> JStr '''']"]
  show ?thesis
    by (simp add: Let_def post_b_def)
qed

end
